theory Spec2Isabelle
  imports Main "HOL-Library.AList" "HOL-Library.Word"
begin

section \<open>JavaScript values as the handlers see them\<close>

text \<open>
  Request bodies, stored items and response payloads are JSON documents. A JavaScript
  object is an association list in property order (a name occurs once; where a list
  repeats a name the first pair is the property). Numbers are the integers, strings
  are lists of characters with code points U+0000 to U+00FF. The JavaScript value
  \<open>undefined\<close> is \<open>None\<close> of \<open>json option\<close>.
\<close>

datatype json =
    JNull
  | JBool bool
  | JNum int
  | JStr string
  | JArr "json list"
  | JObj "(string \<times> json) list"

type_synonym jsobject = "(string \<times> json) list"

text \<open>ToBoolean: what \<open>!x\<close>, \<open>x || y\<close> and \<open>if (x)\<close> test.\<close>

fun truthy :: "json option \<Rightarrow> bool" where
  "truthy None = False"
| "truthy (Some JNull) = False"
| "truthy (Some (JBool b)) = b"
| "truthy (Some (JNum n)) = (n \<noteq> 0)"
| "truthy (Some (JStr s)) = (s \<noteq> [])"
| "truthy (Some (JArr xs)) = True"
| "truthy (Some (JObj fs)) = True"

text \<open>
  Property access \<open>v[name]\<close> on a value other than \<open>null\<close>, for the property names the
  handlers use (none of them is a property of a prototype, so a string, a number, a
  boolean and an array have none of them). On \<open>null\<close> the access throws; every
  handler's first access is guarded in its model.
\<close>

fun getp :: "json \<Rightarrow> string \<Rightarrow> json option" where
  "getp (JObj fs) name = map_of fs name"
| "getp v name = None"

text \<open>\<open>x || d\<close> with a defined default.\<close>

definition or_else :: "json option \<Rightarrow> json \<Rightarrow> json" where
  "or_else x d = (if truthy x then the x else d)"

text \<open>
  Strict equality \<open>a === b\<close> between two values that come from different documents
  (a stored attribute against a request parameter): primitives compare by value,
  an object or an array is only ever equal to itself, so never to a value parsed
  from another document.
\<close>

fun strict_eq :: "json option \<Rightarrow> json option \<Rightarrow> bool" where
  "strict_eq None None = True"
| "strict_eq (Some JNull) (Some JNull) = True"
| "strict_eq (Some (JBool a)) (Some (JBool b)) = (a = b)"
| "strict_eq (Some (JNum a)) (Some (JNum b)) = (a = b)"
| "strict_eq (Some (JStr a)) (Some (JStr b)) = (a = b)"
| "strict_eq a b = False"

section \<open>The authorizer\<close>

text \<open>
  The policy document of \<open>generatePolicy\<close>: one statement, with the fixed version and
  action. The request context is the association list of its entries.
\<close>

datatype effect = Allow | Deny

record statement =
  Action :: string
  Effect :: effect
  Resource :: string

record policyDocument =
  Version :: string
  Statement :: "statement list"

record authResponse =
  principalId :: string
  policyDoc :: policyDocument
  authContext :: "(string \<times> string) list"

definition generatePolicy ::
  "string \<Rightarrow> effect \<Rightarrow> string \<Rightarrow> (string \<times> string) list \<Rightarrow> authResponse" where
  "generatePolicy pid eff resource ctx =
     \<lparr> principalId = pid,
       policyDoc = \<lparr> Version = ''2012-10-17'',
                     Statement = [\<lparr> Action = ''execute-api:Invoke'',
                                    Effect = eff, Resource = resource \<rparr>] \<rparr>,
       authContext = ctx \<rparr>"

text \<open>
  The request headers map a header name to its string value; a header that was not
  sent is \<open>undefined\<close>. \<open>a || b\<close> on two optional strings takes \<open>a\<close> unless it is
  \<open>undefined\<close> or empty.
\<close>

definition header_or :: "string option \<Rightarrow> string option \<Rightarrow> string option" where
  "header_or a b = (case a of None \<Rightarrow> b | Some s \<Rightarrow> if s = [] then b else Some s)"

definition authorizer :: "(string \<times> string) list \<Rightarrow> string \<Rightarrow> authResponse" where
  "authorizer hdrs routeArn =
     (let token = header_or (map_of hdrs ''Authorization'') (map_of hdrs ''authorization'')
      in if token \<noteq> Some ''Bearer mysecrettoken''
         then generatePolicy ''user'' Deny routeArn
                [(''poweredBy'', ''Artisthub''), (''reason'', ''Invalid token'')]
         else generatePolicy ''user'' Allow routeArn [(''poweredBy'', ''Artisthub'')])"

definition policy_effects :: "authResponse \<Rightarrow> effect list" where
  "policy_effects r = map Effect (Statement (policyDoc r))"

section \<open>JSON text\<close>

text \<open>
  \<open>JSON.stringify\<close> on JSON documents: no insignificant white space, members in
  property order, strings quoted with the escapes of the language standard (the two
  characters \<open>"\<close> and \<open>\\<close>, the short escapes for backspace, tab, line feed, form
  feed and carriage return, \<open>\u00XX\<close> in lowercase hexadecimal for every other
  control character).
\<close>

definition hexdigit :: "nat \<Rightarrow> char" where
  "hexdigit n = ''0123456789abcdef'' ! n"

definition escape_char :: "char \<Rightarrow> string" where
  "escape_char c =
     (if c = CHR 0x22 then [CHR 0x5C, CHR 0x22]
      else if c = CHR 0x5C then [CHR 0x5C, CHR 0x5C]
      else if c = CHR 0x08 then [CHR 0x5C, CHR ''b'']
      else if c = CHR 0x09 then [CHR 0x5C, CHR ''t'']
      else if c = CHR 0x0A then [CHR 0x5C, CHR ''n'']
      else if c = CHR 0x0C then [CHR 0x5C, CHR ''f'']
      else if c = CHR 0x0D then [CHR 0x5C, CHR ''r'']
      else if (of_char c :: nat) < 32
        then [CHR 0x5C, CHR ''u'', CHR ''0'', CHR ''0'',
              hexdigit (of_char c div 16), hexdigit (of_char c mod 16)]
      else [c])"

definition quote :: "string \<Rightarrow> string" where
  "quote s = CHR 0x22 # concat (map escape_char s) @ [CHR 0x22]"

function digits :: "nat \<Rightarrow> string" where
  "digits n = (if n < 10 then [''0123456789'' ! n]
               else digits (n div 10) @ [''0123456789'' ! (n mod 10)])"
  by pat_completeness auto
termination
  by (relation "measure id") auto

definition show_int :: "int \<Rightarrow> string" where
  "show_int i = (if i < 0 then CHR ''-'' # digits (nat (- i)) else digits (nat i))"

text \<open>\<open>Array.prototype.join\<close> on an array of strings.\<close>

fun join :: "string \<Rightarrow> string list \<Rightarrow> string" where
  "join sep [] = []"
| "join sep [x] = x"
| "join sep (x # y # ys) = x @ sep @ join sep (y # ys)"

fun JSON_stringify :: "json \<Rightarrow> string" where
  "JSON_stringify JNull = ''null''"
| "JSON_stringify (JBool b) = (if b then ''true'' else ''false'')"
| "JSON_stringify (JNum n) = show_int n"
| "JSON_stringify (JStr s) = quote s"
| "JSON_stringify (JArr xs) = ''['' @ join '','' (map JSON_stringify xs) @ '']''"
| "JSON_stringify (JObj fs) =
     ''{'' @ join '','' (map (\<lambda>kv. quote (fst kv) @ '':'' @ JSON_stringify (snd kv)) fs) @ ''}''"

section \<open>Responses\<close>

text \<open>
  A handler's result: the status code, the header object (absent where the handler
  builds none) and the body text.
\<close>

record response =
  statusCode :: nat
  headers :: "jsobject option"
  body :: string

definition corsHeaders :: jsobject where
  "corsHeaders =
     [(''Content-Type'', JStr ''application/json''),
      (''Access-Control-Allow-Origin'', JStr ''*''),
      (''Access-Control-Allow-Credentials'', JBool True)]"

definition successResponse :: "nat \<Rightarrow> json \<Rightarrow> response" where
  "successResponse code payload =
     \<lparr> statusCode = code, headers = Some corsHeaders, body = JSON_stringify payload \<rparr>"

text \<open>
  \<open>errorResponse(statusCode, message, details = null)\<close>: the spread
  \<open>...(details && { details })\<close> adds the member only when \<open>details\<close> is truthy.
\<close>

definition errorBody :: "string \<Rightarrow> json option \<Rightarrow> jsobject" where
  "errorBody msg details =
     [(''success'', JBool False), (''message'', JStr msg)]
     @ (case details of None \<Rightarrow> []
        | Some d \<Rightarrow> if truthy (Some d) then [(''details'', d)] else [])"

definition errorResponse :: "nat \<Rightarrow> string \<Rightarrow> json option \<Rightarrow> response" where
  "errorResponse code msg details =
     \<lparr> statusCode = code, headers = Some corsHeaders,
       body = JSON_stringify (JObj (errorBody msg details)) \<rparr>"

text \<open>
  What a \<open>try\<close> block can throw. \<open>AWSError code message\<close> is an error of the datastore
  client; the two others are the language's own and have no \<open>code\<close>. The message
  texts are the engine's and the service's; the model keeps a representative text.
\<close>

datatype failure =
    TypeError string
  | SyntaxError string
  | AWSError string string

fun errcode :: "failure \<Rightarrow> string option" where
  "errcode (AWSError c m) = Some c"
| "errcode e = None"

fun errmessage :: "failure \<Rightarrow> string" where
  "errmessage (TypeError m) = m"
| "errmessage (SyntaxError m) = m"
| "errmessage (AWSError c m) = m"

text \<open>The catch-all of every handler: \<open>errorResponse(500, msg, error.message)\<close>.\<close>

definition caught :: "string \<Rightarrow> failure \<Rightarrow> response" where
  "caught msg e = errorResponse 500 msg (Some (JStr (errmessage e)))"

text \<open>\<open>validateRequiredFields\<close>: the required fields whose value is falsy, or \<open>null\<close>
  (here \<open>None\<close>) when there is none.\<close>

definition validateRequiredFields :: "json \<Rightarrow> string list \<Rightarrow> string list option" where
  "validateRequiredFields data requiredFields =
     (let missing = filter (\<lambda>field. \<not> truthy (getp data field)) requiredFields
      in if length missing = 0 then None else Some missing)"

section \<open>The request\<close>

text \<open>
  The event of a request: its path parameters, its query string parameters (absent
  when the request has none), and the value of
  \<open>JSON.parse(event.body || '{}')\<close>, \<open>None\<close> when the body is a text that
  \<open>JSON.parse\<close> rejects with a \<open>SyntaxError\<close>. The environment gives what the
  handler reads from outside: the results of its calls of \<open>uuidv4()\<close> and of
  \<open>new Date().toISOString()\<close>, in call order.
\<close>

record event =
  pathParameters :: "(string \<times> string) list"
  queryStringParameters :: "(string \<times> string) list option"
  parsedBody :: "json option"

record env =
  uuid1 :: string
  uuid2 :: string
  now1 :: string
  now2 :: string

definition parse_body :: "event \<Rightarrow> failure + json" where
  "parse_body ev =
     (case parsedBody ev of
        None \<Rightarrow> Inl (SyntaxError ''Unexpected token in JSON'')
      | Some v \<Rightarrow> Inr v)"

text \<open>\<open>!param\<close> on a path parameter: absent or the empty string.\<close>

definition missing_param :: "string option \<Rightarrow> bool" where
  "missing_param p = (case p of None \<Rightarrow> True | Some s \<Rightarrow> s = [])"

section \<open>The datastore\<close>

text \<open>
  A table maps the value of its partition key to the stored item; an item is a JSON
  object. The table holds any JSON document; a request fails only where a condition
  expression is false or \<open>list_append\<close> meets an operand that is not a list.
  \<open>SET\<close> evaluates its clauses against the item as stored and assigns each
  attribute; an update returns the item as written (\<open>ALL_NEW\<close>).
\<close>

type_synonym item = jsobject
type_synonym table = "(string \<times> item) list"

definition ddb_get :: "table \<Rightarrow> string \<Rightarrow> item option" where
  "ddb_get t k = map_of t k"

definition ddb_set :: "item \<Rightarrow> (string \<times> json) list \<Rightarrow> item" where
  "ddb_set it clauses = fold (\<lambda>c. AList.update (fst c) (snd c)) clauses it"

definition ddb_write :: "table \<Rightarrow> string \<Rightarrow> item \<Rightarrow> table" where
  "ddb_write t k it = AList.update k it t"

text \<open>\<open>list_append(if_not_exists(#attr, :empty), :entry)\<close> with \<open>:empty = []\<close> and
  \<open>:entry\<close> a list of one element.\<close>

definition ddb_list_append :: "item \<Rightarrow> string \<Rightarrow> json \<Rightarrow> failure + json" where
  "ddb_list_append it attr entry =
     (case map_of it attr of
        None \<Rightarrow> Inr (JArr [entry])
      | Some (JArr xs) \<Rightarrow> Inr (JArr (xs @ [entry]))
      | Some other \<Rightarrow> Inl (AWSError ''ValidationException''
           ''Incorrect operand type for operator or function; operator or function: list_append''))"

text \<open>\<open>put\<close> under \<open>attribute_not_exists(key)\<close>.\<close>

definition ddb_put_new :: "table \<Rightarrow> string \<Rightarrow> item \<Rightarrow> failure + table" where
  "ddb_put_new t k it =
     (case map_of t k of
        Some old \<Rightarrow> Inl (AWSError ''ConditionalCheckFailedException''
                         ''The conditional request failed'')
      | None \<Rightarrow> Inr (t @ [(k, it)]))"

text \<open>The query of \<open>usernameIndex\<close> with \<open>username = :username\<close>.\<close>

definition ddb_query_username :: "table \<Rightarrow> json \<Rightarrow> item list" where
  "ddb_query_username t u = filter (\<lambda>it. map_of it ''username'' = Some u) (map snd t)"

text \<open>
  The update \<open>SET #attr = list_append(if_not_exists(#attr, :empty), :entry),
  #updatedAt = :now\<close> on the item stored under a key; it returns the item as written
  and the table after the write.
\<close>

definition update_list_append ::
  "table \<Rightarrow> string \<Rightarrow> item \<Rightarrow> string \<Rightarrow> json \<Rightarrow> string \<Rightarrow> failure + item \<times> table" where
  "update_list_append t k existing attr entry now =
     (case ddb_list_append existing attr entry of
        Inl err \<Rightarrow> Inl err
      | Inr appended \<Rightarrow>
          let attributes = ddb_set existing [(attr, appended), (''updatedAt'', JStr now)]
          in Inr (attributes, ddb_write t k attributes))"

section \<open>Casting-job handlers\<close>

definition updateableJobFields :: "string list" where
  "updateableJobFields =
     [''jobTitle'', ''jobDescription'', ''jobCategory'', ''jobType'', ''jobLocation'',
      ''tags'', ''view'', ''verified'', ''isExpired'', ''isCollab'', ''isWishlisted'',
      ''imageUrl'', ''expiryDate'', ''applicationStatus'', ''appliedBy'', ''recruiter'',
      ''requirements'', ''documents'']"

text \<open>
  The loop over the updateable fields: one \<open>SET\<close> clause for every field whose
  value in the body is not \<open>undefined\<close>, in the order of the field list.
\<close>

definition set_clauses :: "string list \<Rightarrow> json \<Rightarrow> (string \<times> json) list" where
  "set_clauses fieldNames b =
     concat (map (\<lambda>field. case getp b field of None \<Rightarrow> [] | Some v \<Rightarrow> [(field, v)]) fieldNames)"

definition updateJob :: "env \<Rightarrow> table \<Rightarrow> event \<Rightarrow> response \<times> table" where
  "updateJob e t ev =
     (case parse_body ev of
        Inl err \<Rightarrow> (caught ''Failed to update job'' err, t)
      | Inr b \<Rightarrow>
          (case map_of (pathParameters ev) ''jobId'' of
             None \<Rightarrow> (errorResponse 400 ''Missing required parameter: jobId'' None, t)
           | Some jobId \<Rightarrow>
               if jobId = [] then (errorResponse 400 ''Missing required parameter: jobId'' None, t)
               else (case ddb_get t jobId of
                  None \<Rightarrow> (errorResponse 404 ''Job not found'' None, t)
                | Some existing \<Rightarrow>
                    if b = JNull
                    then (caught ''Failed to update job''
                            (TypeError ''Cannot read properties of null''), t)
                    else
                      let updateExpressions =
                            set_clauses updateableJobFields b @ [(''updatedAt'', JStr (now1 e))]
                      in if length updateExpressions = 0
                         then (errorResponse 400 ''No fields to update'' None, t)
                         else
                           let attributes = ddb_set existing updateExpressions
                           in (successResponse 200
                                 (JObj [(''success'', JBool True),
                                        (''message'', JStr ''Job updated successfully''),
                                        (''job'', JObj attributes)]),
                               ddb_write t jobId attributes))))"

text \<open>
  \<open>appliedBy?.some(app => app.userId === userId)\<close>: the scan stops at the first
  match; reading \<open>userId\<close> of a \<open>null\<close> entry throws, and so does the call on a
  value that is neither nullish nor an array.
\<close>

fun some_userId :: "json list \<Rightarrow> json option \<Rightarrow> failure + bool" where
  "some_userId [] uid = Inr False"
| "some_userId (app # apps) uid =
     (if app = JNull then Inl (TypeError ''Cannot read properties of null (reading userId)'')
      else if strict_eq (getp app ''userId'') uid then Inr True
      else some_userId apps uid)"

definition alreadyApplied :: "json option \<Rightarrow> json option \<Rightarrow> failure + bool" where
  "alreadyApplied appliedBy uid =
     (case appliedBy of
        None \<Rightarrow> Inr False
      | Some JNull \<Rightarrow> Inr False
      | Some (JArr apps) \<Rightarrow> some_userId apps uid
      | Some other \<Rightarrow> Inl (TypeError ''appliedBy.some is not a function''))"

definition applyForJob_try :: "env \<Rightarrow> table \<Rightarrow> event \<Rightarrow> failure + response \<times> table" where
  "applyForJob_try e t ev =
     (case parse_body ev of
        Inl err \<Rightarrow> Inl err
      | Inr b \<Rightarrow>
          if b = JNull then Inl (TypeError ''Cannot destructure property userId of null'')
          else
            let userId = getp b ''userId''; avatarUrl = getp b ''avatarUrl'' in
            (case map_of (pathParameters ev) ''jobId'' of
               None \<Rightarrow> Inr (errorResponse 400 ''Missing required parameter: jobId'' None, t)
             | Some jobId \<Rightarrow>
                 if jobId = []
                 then Inr (errorResponse 400 ''Missing required parameter: jobId'' None, t)
                 else (case validateRequiredFields b [''userId''] of
                    Some missing \<Rightarrow>
                      Inr (errorResponse 400
                             (''Missing required fields: '' @ join '', '' missing) None, t)
                  | None \<Rightarrow>
                      (case ddb_get t jobId of
                         None \<Rightarrow> Inr (errorResponse 404 ''Job not found'' None, t)
                       | Some existing \<Rightarrow>
                           (case alreadyApplied (map_of existing ''appliedBy'') userId of
                              Inl err \<Rightarrow> Inl err
                            | Inr True \<Rightarrow>
                                Inr (errorResponse 409
                                       ''You have already applied for this job'' None, t)
                            | Inr False \<Rightarrow>
                                let newApplication =
                                      JObj [(''userId'', the userId),
                                            (''appId'', JStr (uuid1 e)),
                                            (''avatarUrl'', or_else avatarUrl (JStr []))]
                                in (case update_list_append t jobId existing ''appliedBy''
                                           newApplication (now1 e) of
                                      Inl err \<Rightarrow> Inl err
                                    | Inr (attributes, t') \<Rightarrow>
                                        Inr (successResponse 201
                                               (JObj [(''success'', JBool True),
                                                      (''message'', JStr ''Application submitted successfully''),
                                                      (''application'', newApplication),
                                                      (''job'', JObj attributes)]),
                                             t')))))))"

definition applyForJob :: "env \<Rightarrow> table \<Rightarrow> event \<Rightarrow> response \<times> table" where
  "applyForJob e t ev =
     (case applyForJob_try e t ev of
        Inl err \<Rightarrow> (caught ''Failed to apply for job'' err, t)
      | Inr r \<Rightarrow> r)"

definition validDocumentTypes :: "string list" where
  "validDocumentTypes = [''pdf'', ''image'', ''video'', ''script'']"

text \<open>\<open>list.includes(v)\<close> on a list of strings.\<close>

definition list_includes :: "string list \<Rightarrow> json option \<Rightarrow> bool" where
  "list_includes xs v = (case v of Some (JStr s) \<Rightarrow> s \<in> set xs | _ \<Rightarrow> False)"

definition addDocument_try :: "env \<Rightarrow> table \<Rightarrow> event \<Rightarrow> failure + response \<times> table" where
  "addDocument_try e t ev =
     (case parse_body ev of
        Inl err \<Rightarrow> Inl err
      | Inr b \<Rightarrow>
          if b = JNull then Inl (TypeError ''Cannot destructure property url of null'')
          else
            let url = getp b ''url''; type' = getp b ''type'' in
            (case map_of (pathParameters ev) ''jobId'' of
               None \<Rightarrow> Inr (errorResponse 400 ''Missing required parameter: jobId'' None, t)
             | Some jobId \<Rightarrow>
                 if jobId = []
                 then Inr (errorResponse 400 ''Missing required parameter: jobId'' None, t)
                 else (case validateRequiredFields b [''url'', ''type''] of
                    Some missing \<Rightarrow>
                      Inr (errorResponse 400
                             (''Missing required fields: '' @ join '', '' missing) None, t)
                  | None \<Rightarrow>
                      if \<not> list_includes validDocumentTypes type'
                      then Inr (errorResponse 400
                                  (''Invalid document type. Must be one of: ''
                                   @ join '', '' validDocumentTypes) None, t)
                      else (case ddb_get t jobId of
                         None \<Rightarrow> Inr (errorResponse 404 ''Job not found'' None, t)
                       | Some existing \<Rightarrow>
                           let newDocument =
                                 JObj [(''id'', JStr (uuid1 e)), (''url'', the url),
                                       (''type'', the type')]
                           in (case update_list_append t jobId existing ''documents''
                                      newDocument (now1 e) of
                                 Inl err \<Rightarrow> Inl err
                               | Inr (attributes, t') \<Rightarrow>
                                   Inr (successResponse 201
                                          (JObj [(''success'', JBool True),
                                                 (''message'', JStr ''Document added''),
                                                 (''document'', newDocument),
                                                 (''job'', JObj attributes)]),
                                        t'))))))"

definition addDocument :: "env \<Rightarrow> table \<Rightarrow> event \<Rightarrow> response \<times> table" where
  "addDocument e t ev =
     (case addDocument_try e t ev of
        Inl err \<Rightarrow> (caught ''Failed to add document'' err, t)
      | Inr r \<Rightarrow> r)"

text \<open>
  \<open>(job.Item.documents || []).filter(doc => doc.id !== docId)\<close>: a falsy attribute
  gives the empty list; \<open>filter\<close> exists on arrays only, and reading \<open>id\<close> of a
  \<open>null\<close> element throws. The path parameter \<open>docId\<close> is a string.
\<close>

definition filter_documents :: "json option \<Rightarrow> string \<Rightarrow> failure + json list" where
  "filter_documents documents docId =
     (if \<not> truthy documents then Inr []
      else (case documents of
         Some (JArr docs) \<Rightarrow>
           if JNull \<in> set docs
           then Inl (TypeError ''Cannot read properties of null (reading id)'')
           else Inr (filter (\<lambda>doc. \<not> strict_eq (getp doc ''id'') (Some (JStr docId))) docs)
       | other \<Rightarrow> Inl (TypeError ''filter is not a function'')))"

text \<open>
  \<open>job.Item.documents?.length\<close>, where the filter above did not throw (the attribute
  is an array or falsy): the length of an array or of a string, \<open>undefined\<close> for an
  absent attribute, \<open>null\<close>, \<open>false\<close> and \<open>0\<close>.
\<close>

definition documents_length :: "json option \<Rightarrow> nat option" where
  "documents_length documents =
     (case documents of
        Some (JArr docs) \<Rightarrow> Some (length docs)
      | Some (JStr s) \<Rightarrow> Some (length s)
      | other \<Rightarrow> None)"

definition removeDocument_try :: "env \<Rightarrow> table \<Rightarrow> event \<Rightarrow> failure + response \<times> table" where
  "removeDocument_try e t ev =
     (let jobId = map_of (pathParameters ev) ''jobId'';
          docId = map_of (pathParameters ev) ''docId''
      in if missing_param jobId \<or> missing_param docId
         then Inr (errorResponse 400 ''Missing required parameters: jobId, docId'' None, t)
         else (case ddb_get t (the jobId) of
            None \<Rightarrow> Inr (errorResponse 404 ''Job not found'' None, t)
          | Some existing \<Rightarrow>
              (case filter_documents (map_of existing ''documents'') (the docId) of
                 Inl err \<Rightarrow> Inl err
               | Inr documents \<Rightarrow>
                   if Some (length documents) = documents_length (map_of existing ''documents'')
                   then Inr (errorResponse 404 ''Document not found'' None, t)
                   else
                     let attributes =
                           ddb_set existing
                             [(''documents'', JArr documents), (''updatedAt'', JStr (now1 e))]
                     in Inr (successResponse 200
                               (JObj [(''success'', JBool True),
                                      (''message'', JStr ''Document removed''),
                                      (''job'', JObj attributes)]),
                             ddb_write t (the jobId) attributes))))"

definition removeDocument :: "env \<Rightarrow> table \<Rightarrow> event \<Rightarrow> response \<times> table" where
  "removeDocument e t ev =
     (case removeDocument_try e t ev of
        Inl err \<Rightarrow> (caught ''Failed to remove document'' err, t)
      | Inr r \<Rightarrow> r)"

definition getJobById :: "table \<Rightarrow> event \<Rightarrow> response" where
  "getJobById t ev =
     (let jobId = map_of (pathParameters ev) ''jobId''
      in if missing_param jobId
         then errorResponse 400 ''Missing required parameter: jobId'' None
         else (case ddb_get t (the jobId) of
            None \<Rightarrow> errorResponse 404 ''Job not found'' None
          | Some found \<Rightarrow>
              successResponse 200 (JObj [(''success'', JBool True), (''job'', JObj found)])))"

section \<open>The task handler\<close>

text \<open>
  \<open>createTask\<close> parses the body outside its \<open>try\<close> block (\<open>parsedBody\<close> is here the
  value of \<open>JSON.parse(event.body)\<close>): a text that is not JSON ends the invocation
  without a response. The item holds the members of the body that are defined; the
  write is conditional on the key \<open>id\<close> being new. A caught error is returned as its
  own serialisation: an error of the language has no enumerable member, an error of
  the datastore client has its message and code (and members of the service that the
  model leaves out).
\<close>

type_synonym task_table = "(json \<times> item) list"

fun error_json :: "failure \<Rightarrow> json" where
  "error_json (AWSError c m) = JObj [(''message'', JStr m), (''code'', JStr c)]"
| "error_json e = JObj []"

definition bare_response :: "nat \<Rightarrow> json \<Rightarrow> response" where
  "bare_response code payload =
     \<lparr> statusCode = code, headers = None, body = JSON_stringify payload \<rparr>"

definition createTask :: "task_table \<Rightarrow> event \<Rightarrow> response option \<times> task_table" where
  "createTask t ev =
     (case parsedBody ev of
        None \<Rightarrow> (None, t)
      | Some data \<Rightarrow>
          if data = JNull
          then (Some (bare_response 500
                        (error_json (TypeError ''Cannot read properties of null (reading id)''))), t)
          else
            let Item = set_clauses [''id'', ''title'', ''description''] data
            in (case getp data ''id'' of
                  None \<Rightarrow>
                    (Some (bare_response 500
                             (error_json (AWSError ''ValidationException''
                                ''One of the required keys was not given a value''))), t)
                | Some k \<Rightarrow>
                    (case map_of t k of
                       Some old \<Rightarrow>
                         (Some (bare_response 500
                                  (error_json (AWSError ''ConditionalCheckFailedException''
                                     ''The conditional request failed''))), t)
                     | None \<Rightarrow> (Some (bare_response 200 data), t @ [(k, Item)]))))"

section \<open>User handlers\<close>

text \<open>Optional chaining \<open>v?.name\<close>: \<open>undefined\<close> on \<open>undefined\<close> and \<open>null\<close>.\<close>

definition opt_chain :: "json option \<Rightarrow> string \<Rightarrow> json option" where
  "opt_chain v name = (case v of None \<Rightarrow> None | Some JNull \<Rightarrow> None | Some x \<Rightarrow> getp x name)"

text \<open>
  The record \<open>createUser\<close> stores, built from the body, the generated id and the
  single reading \<open>now\<close> of the clock. \<open>basicDetails\<close> is the body's member, or the
  empty object when the member is \<open>undefined\<close>.
\<close>

definition new_user :: "json \<Rightarrow> json \<Rightarrow> string \<Rightarrow> string \<Rightarrow> item" where
  "new_user b basicDetails userId now =
     [(''userId'', JStr userId),
      (''username'', the (getp b ''username'')),
      (''email'', the (getp b ''email'')),
      (''privacy'', or_else (getp b ''privacy'') (JStr ''public'')),
      (''currentPlan'', or_else (getp b ''currentPlan'') (JStr ''free'')),
      (''view'', JNum 0),
      (''aboutMe'', or_else (getp b ''aboutMe'') (JStr [])),
      (''device_tokens'', or_else (getp b ''device_tokens'') (JArr [])),
      (''subscription'', JObj
         [(''activePlan'', or_else (opt_chain (getp b ''subscription'') ''activePlan'') (JStr ''free'')),
          (''startDate'', JStr now),
          (''renewalDate'', or_else (opt_chain (getp b ''subscription'') ''renewalDate'') JNull),
          (''status'', JStr ''active'')]),
      (''tokens'', or_else (getp b ''tokens'')
         (JObj [(''AccessToken'', JStr []), (''RefreshToken'', JStr []), (''IdToken'', JStr [])])),
      (''basicDetails'', JObj
         [(''firstName'', or_else (getp basicDetails ''firstName'') (JStr [])),
          (''lastName'', or_else (getp basicDetails ''lastName'') (JStr [])),
          (''fullName'', or_else (getp basicDetails ''fullName'') (JStr [])),
          (''avatarUrl'', or_else (getp basicDetails ''avatarUrl'') (JStr [])),
          (''gender'', or_else (getp basicDetails ''gender'') (JStr [])),
          (''category'', or_else (getp basicDetails ''category'') (JArr [])),
          (''birthDate'', or_else (getp basicDetails ''birthDate'') JNull),
          (''age'', or_else (getp basicDetails ''age'') JNull),
          (''city'', or_else (getp basicDetails ''city'') (JStr []))]),
      (''contactDetails'', JObj
         [(''email'', or_else (opt_chain (getp b ''contactDetails'') ''email'') (the (getp b ''email''))),
          (''phone'', or_else (opt_chain (getp b ''contactDetails'') ''phone'') (JStr [])),
          (''instagram'', or_else (opt_chain (getp b ''contactDetails'') ''instagram'') (JStr [])),
          (''facebook'', or_else (opt_chain (getp b ''contactDetails'') ''facebook'') (JStr [])),
          (''twitter'', or_else (opt_chain (getp b ''contactDetails'') ''twitter'') (JStr [])),
          (''youtube'', or_else (opt_chain (getp b ''contactDetails'') ''youtube'') (JStr []))]),
      (''physicalStats'', JObj
         [(''height'', or_else (opt_chain (getp b ''physicalStats'') ''height'') (JStr [])),
          (''weight'', or_else (opt_chain (getp b ''physicalStats'') ''weight'') (JStr [])),
          (''bust'', or_else (opt_chain (getp b ''physicalStats'') ''bust'') (JStr [])),
          (''waist'', or_else (opt_chain (getp b ''physicalStats'') ''waist'') (JStr [])),
          (''hips'', or_else (opt_chain (getp b ''physicalStats'') ''hips'') (JStr [])),
          (''chest'', or_else (opt_chain (getp b ''physicalStats'') ''chest'') (JStr [])),
          (''biceps'', or_else (opt_chain (getp b ''physicalStats'') ''biceps'') (JStr [])),
          (''hairType'', or_else (opt_chain (getp b ''physicalStats'') ''hairType'') (JStr [])),
          (''hairLength'', or_else (opt_chain (getp b ''physicalStats'') ''hairLength'') (JStr []))]),
      (''skills'', JObj
         [(''languages'', or_else (opt_chain (getp b ''skills'') ''languages'') (JArr [])),
          (''expertise'', or_else (opt_chain (getp b ''skills'') ''expertise'') (JArr [])),
          (''hobbies'', or_else (opt_chain (getp b ''skills'') ''hobbies'') (JArr []))]),
      (''workExperience'', or_else (getp b ''workExperience'') (JArr [])),
      (''portfolio'', or_else (getp b ''portfolio'') (JArr [])),
      (''appliedJobs'', or_else (getp b ''appliedJobs'') (JArr [])),
      (''requestSent'', or_else (getp b ''requestSent'') (JArr [])),
      (''requestReceived'', or_else (getp b ''requestReceived'') (JArr [])),
      (''connections'', or_else (getp b ''connections'') (JArr [])),
      (''createdAt'', JStr now),
      (''updatedAt'', JStr now)]"

definition createUser_try :: "env \<Rightarrow> table \<Rightarrow> event \<Rightarrow> failure + response \<times> table" where
  "createUser_try e t ev =
     (case parse_body ev of
        Inl err \<Rightarrow> Inl err
      | Inr b \<Rightarrow>
          if b = JNull then Inl (TypeError ''Cannot destructure property username of null'')
          else
            let username = getp b ''username'';
                basicDetails = (case getp b ''basicDetails'' of None \<Rightarrow> JObj [] | Some v \<Rightarrow> v)
            in (case validateRequiredFields b [''username'', ''email''] of
                  Some missing \<Rightarrow>
                    Inr (errorResponse 400
                           (''Missing required fields: '' @ join '', '' missing) None, t)
                | None \<Rightarrow>
                    let userId = uuid1 e; now = now1 e;
                        existingUser = ddb_query_username t (the username)
                    in if length existingUser > 0
                       then Inr (errorResponse 409 ''Username already exists'' None, t)
                       else if basicDetails = JNull
                       then Inl (TypeError ''Cannot read properties of null (reading firstName)'')
                       else
                         let user = new_user b basicDetails userId now
                         in (case ddb_put_new t userId user of
                               Inl err \<Rightarrow> Inl err
                             | Inr t' \<Rightarrow>
                                 Inr (successResponse 201
                                        (JObj [(''success'', JBool True),
                                               (''message'', JStr ''User created successfully''),
                                               (''user'', JObj user)]),
                                      t'))))"

definition createUser :: "env \<Rightarrow> table \<Rightarrow> event \<Rightarrow> response \<times> table" where
  "createUser e t ev =
     (case createUser_try e t ev of
        Inl err \<Rightarrow>
          if errcode err = Some ''ConditionalCheckFailedException''
          then (errorResponse 409 ''User already exists'' None, t)
          else (caught ''Failed to create user'' err, t)
      | Inr r \<Rightarrow> r)"

definition updateableUserFields :: "string list" where
  "updateableUserFields =
     [''username'', ''email'', ''privacy'', ''currentPlan'', ''view'', ''aboutMe'',
      ''device_tokens'', ''subscription'', ''tokens'', ''basicDetails'',
      ''contactDetails'', ''physicalStats'', ''skills'', ''workExperience'',
      ''portfolio'', ''appliedJobs'', ''requestSent'', ''requestReceived'', ''connections'']"

definition updateUser :: "env \<Rightarrow> table \<Rightarrow> event \<Rightarrow> response \<times> table" where
  "updateUser e t ev =
     (case parse_body ev of
        Inl err \<Rightarrow> (caught ''Failed to update user'' err, t)
      | Inr b \<Rightarrow>
          (case map_of (pathParameters ev) ''userId'' of
             None \<Rightarrow> (errorResponse 400 ''Missing required parameter: userId'' None, t)
           | Some userId \<Rightarrow>
               if userId = [] then (errorResponse 400 ''Missing required parameter: userId'' None, t)
               else (case ddb_get t userId of
                  None \<Rightarrow> (errorResponse 404 ''User not found'' None, t)
                | Some existing \<Rightarrow>
                    if b = JNull
                    then (caught ''Failed to update user''
                            (TypeError ''Cannot read properties of null (reading username)''), t)
                    else if truthy (getp b ''username'')
                            \<and> \<not> strict_eq (getp b ''username'') (map_of existing ''username'')
                            \<and> length (ddb_query_username t (the (getp b ''username''))) > 0
                    then (errorResponse 409 ''Username already exists'' None, t)
                    else
                      let updateExpressions =
                            set_clauses updateableUserFields b @ [(''updatedAt'', JStr (now1 e))]
                      in if length updateExpressions = 0
                         then (errorResponse 400 ''No fields to update'' None, t)
                         else
                           let attributes = ddb_set existing updateExpressions
                           in (successResponse 200
                                 (JObj [(''success'', JBool True),
                                        (''message'', JStr ''User updated successfully''),
                                        (''user'', JObj attributes)]),
                               ddb_write t userId attributes))))"

text \<open>A destructured member with a default: \<open>const { verified = false } = body\<close>.\<close>

definition with_default :: "json option \<Rightarrow> json \<Rightarrow> json" where
  "with_default v d = (case v of None \<Rightarrow> d | Some x \<Rightarrow> x)"

definition addWorkExperience_try :: "env \<Rightarrow> table \<Rightarrow> event \<Rightarrow> failure + response \<times> table" where
  "addWorkExperience_try e t ev =
     (case parse_body ev of
        Inl err \<Rightarrow> Inl err
      | Inr b \<Rightarrow>
          if b = JNull then Inl (TypeError ''Cannot destructure property workType of null'')
          else
            let workType = getp b ''workType''; brand = getp b ''brand'';
                workLink = getp b ''workLink'';
                verified = with_default (getp b ''verified'') (JBool False);
                userId = map_of (pathParameters ev) ''userId''
            in if missing_param userId
               then Inr (errorResponse 400 ''Missing required parameter: userId'' None, t)
               else (case validateRequiredFields b [''workType'', ''brand''] of
                  Some missing \<Rightarrow>
                    Inr (errorResponse 400
                           (''Missing required fields: '' @ join '', '' missing) None, t)
                | None \<Rightarrow>
                    (case ddb_get t (the userId) of
                       None \<Rightarrow> Inr (errorResponse 404 ''User not found'' None, t)
                     | Some existing \<Rightarrow>
                         let newWork =
                               JObj [(''id'', JStr (uuid1 e)),
                                     (''workType'', the workType),
                                     (''brand'', the brand),
                                     (''verified'', verified),
                                     (''workLink'', or_else workLink (JStr [])),
                                     (''createdAt'', JStr (now1 e))]
                         in (case update_list_append t (the userId) existing ''workExperience''
                                    newWork (now2 e) of
                               Inl err \<Rightarrow> Inl err
                             | Inr (attributes, t') \<Rightarrow>
                                 Inr (successResponse 201
                                        (JObj [(''success'', JBool True),
                                               (''message'', JStr ''Work experience added''),
                                               (''workExperience'', newWork),
                                               (''user'', JObj attributes)]),
                                      t')))))"

definition addWorkExperience :: "env \<Rightarrow> table \<Rightarrow> event \<Rightarrow> response \<times> table" where
  "addWorkExperience e t ev =
     (case addWorkExperience_try e t ev of
        Inl err \<Rightarrow> (caught ''Failed to add work experience'' err, t)
      | Inr r \<Rightarrow> r)"

definition addPortfolioItem_try :: "env \<Rightarrow> table \<Rightarrow> event \<Rightarrow> failure + response \<times> table" where
  "addPortfolioItem_try e t ev =
     (case parse_body ev of
        Inl err \<Rightarrow> Inl err
      | Inr b \<Rightarrow>
          if b = JNull then Inl (TypeError ''Cannot destructure property url of null'')
          else
            let url = getp b ''url''; type' = getp b ''type'';
                selected = with_default (getp b ''selected'') (JBool False);
                userId = map_of (pathParameters ev) ''userId''
            in if missing_param userId
               then Inr (errorResponse 400 ''Missing required parameter: userId'' None, t)
               else (case validateRequiredFields b [''url'', ''type''] of
                  Some missing \<Rightarrow>
                    Inr (errorResponse 400
                           (''Missing required fields: '' @ join '', '' missing) None, t)
                | None \<Rightarrow>
                    (case ddb_get t (the userId) of
                       None \<Rightarrow> Inr (errorResponse 404 ''User not found'' None, t)
                     | Some existing \<Rightarrow>
                         let newPortfolio =
                               JObj [(''id'', JStr (uuid1 e)),
                                     (''url'', the url),
                                     (''type'', the type'),
                                     (''selected'', selected),
                                     (''uploadedAt'', JStr (now1 e))]
                         in (case update_list_append t (the userId) existing ''portfolio''
                                    newPortfolio (now2 e) of
                               Inl err \<Rightarrow> Inl err
                             | Inr (attributes, t') \<Rightarrow>
                                 Inr (successResponse 201
                                        (JObj [(''success'', JBool True),
                                               (''message'', JStr ''Portfolio item added''),
                                               (''portfolioItem'', newPortfolio),
                                               (''user'', JObj attributes)]),
                                      t')))))"

definition addPortfolioItem :: "env \<Rightarrow> table \<Rightarrow> event \<Rightarrow> response \<times> table" where
  "addPortfolioItem e t ev =
     (case addPortfolioItem_try e t ev of
        Inl err \<Rightarrow> (caught ''Failed to add portfolio item'' err, t)
      | Inr r \<Rightarrow> r)"

definition addConnection_try :: "env \<Rightarrow> table \<Rightarrow> event \<Rightarrow> failure + response \<times> table" where
  "addConnection_try e t ev =
     (case parse_body ev of
        Inl err \<Rightarrow> Inl err
      | Inr b \<Rightarrow>
          if b = JNull then Inl (TypeError ''Cannot destructure property senderId of null'')
          else
            let senderId = getp b ''senderId''; receiverId = getp b ''receiverId'';
                userId = map_of (pathParameters ev) ''userId''
            in if missing_param userId
               then Inr (errorResponse 400 ''Missing required parameter: userId'' None, t)
               else (case validateRequiredFields b [''senderId'', ''receiverId''] of
                  Some missing \<Rightarrow>
                    Inr (errorResponse 400
                           (''Missing required fields: '' @ join '', '' missing) None, t)
                | None \<Rightarrow>
                    (case ddb_get t (the userId) of
                       None \<Rightarrow> Inr (errorResponse 404 ''User not found'' None, t)
                     | Some existing \<Rightarrow>
                         let newConnection =
                               JObj [(''connectionId'', JStr (uuid1 e)),
                                     (''senderId'', the senderId),
                                     (''receiverId'', the receiverId),
                                     (''chatId'', JStr (uuid2 e)),
                                     (''connectionStatus'', JStr ''pending''),
                                     (''connectedAt'', JStr (now1 e))]
                         in (case update_list_append t (the userId) existing ''connections''
                                    newConnection (now2 e) of
                               Inl err \<Rightarrow> Inl err
                             | Inr (attributes, t') \<Rightarrow>
                                 Inr (successResponse 201
                                        (JObj [(''success'', JBool True),
                                               (''message'', JStr ''Connection added''),
                                               (''connection'', newConnection),
                                               (''user'', JObj attributes)]),
                                      t')))))"

definition addConnection :: "env \<Rightarrow> table \<Rightarrow> event \<Rightarrow> response \<times> table" where
  "addConnection e t ev =
     (case addConnection_try e t ev of
        Inl err \<Rightarrow> (caught ''Failed to add connection'' err, t)
      | Inr r \<Rightarrow> r)"

section \<open>Pagination tokens\<close>

text \<open>
  \<open>listJobs\<close> and \<open>listUsers\<close> return
  \<open>Buffer.from(JSON.stringify(result.LastEvaluatedKey)).toString('base64')\<close> and read
  \<open>JSON.parse(Buffer.from(lastKey, 'base64').toString())\<close>. The continuation key of
  a scan of these tables is an object whose members are the key attributes of the last
  item, each a string (\<open>jobId\<close>, \<open>userId\<close>): an association list of names and
  string values. The three library functions are modelled after the platform's
  documentation.
\<close>

type_synonym lastKey = "(string \<times> string) list"
type_synonym byte = "8 word"

definition key_json :: "lastKey \<Rightarrow> json" where
  "key_json k = JObj (map (\<lambda>kv. (fst kv, JStr (snd kv))) k)"

subsection \<open>UTF-8\<close>

text \<open>
  \<open>Buffer.from(text)\<close>: one byte for a code point below U+0080, two bytes for the
  code points U+0080 to U+00FF.
\<close>

definition utf8_char :: "char \<Rightarrow> byte list" where
  "utf8_char c =
     (let n = (of_char c :: nat)
      in if n < 128 then [of_nat n] else [of_nat (192 + n div 64), of_nat (128 + n mod 64)])"

definition utf8_encode :: "string \<Rightarrow> byte list" where
  "utf8_encode s = concat (map utf8_char s)"

text \<open>
  \<open>buffer.toString()\<close>. The result is \<open>None\<close> where the bytes hold a code point
  above U+00FF or a malformed sequence (which the platform replaces by U+FFFD): such a
  text is outside the strings of this model.
\<close>

fun utf8_decode :: "byte list \<Rightarrow> string option" where
  "utf8_decode [] = Some []"
| "utf8_decode (b # bs) =
     (if unat b < 128 then map_option (Cons (char_of (unat b))) (utf8_decode bs)
      else if unat b = 194 \<or> unat b = 195
      then (case bs of
              [] \<Rightarrow> None
            | b2 # rest \<Rightarrow>
                if 128 \<le> unat b2 \<and> unat b2 < 192
                then map_option (Cons (char_of ((unat b - 192) * 64 + (unat b2 - 128))))
                       (utf8_decode rest)
                else None)
      else None)"

subsection \<open>Base64\<close>

definition b64_alphabet :: string where
  "b64_alphabet = ''ABCDEFGHIJKLMNOPQRSTUVWXYZabcdefghijklmnopqrstuvwxyz0123456789+/''"

definition b64_char :: "nat \<Rightarrow> char" where
  "b64_char n = b64_alphabet ! n"

text \<open>\<open>buffer.toString('base64')\<close>: three bytes give four characters, the last
  group is padded with \<open>=\<close>.\<close>

fun base64_encode :: "byte list \<Rightarrow> string" where
  "base64_encode [] = []"
| "base64_encode [a] =
     [b64_char (unat a div 4), b64_char ((unat a mod 4) * 16), CHR ''='', CHR ''='']"
| "base64_encode [a, b] =
     [b64_char (unat a div 4), b64_char ((unat a mod 4) * 16 + unat b div 16),
      b64_char ((unat b mod 16) * 4), CHR ''='']"
| "base64_encode (a # b # c # rest) =
     [b64_char (unat a div 4), b64_char ((unat a mod 4) * 16 + unat b div 16),
      b64_char ((unat b mod 16) * 4 + unat c div 64), b64_char (unat c mod 64)]
     @ base64_encode rest"

fun index_of :: "'a \<Rightarrow> 'a list \<Rightarrow> nat option" where
  "index_of x [] = None"
| "index_of x (y # ys) = (if x = y then Some 0 else map_option Suc (index_of x ys))"

text \<open>
  \<open>Buffer.from(text, 'base64')\<close> never fails: it reads the characters of the
  standard and of the URL-safe alphabet, skips every other character (white space
  included) and stops at the first \<open>=\<close>. Four characters give three bytes; a last
  group of three gives two bytes, of two gives one, and a single left-over character
  gives none.
\<close>

definition b64_value :: "char \<Rightarrow> nat option" where
  "b64_value c =
     (if c = CHR ''-'' then Some 62 else if c = CHR ''_'' then Some 63
      else index_of c b64_alphabet)"

fun b64_sextets :: "string \<Rightarrow> nat list" where
  "b64_sextets [] = []"
| "b64_sextets (c # cs) =
     (if c = CHR ''='' then []
      else (case b64_value c of
              None \<Rightarrow> b64_sextets cs
            | Some v \<Rightarrow> v # b64_sextets cs))"

fun sextets_bytes :: "nat list \<Rightarrow> byte list" where
  "sextets_bytes (s1 # s2 # s3 # s4 # rest) =
     [of_nat (s1 * 4 + s2 div 16), of_nat ((s2 mod 16) * 16 + s3 div 4),
      of_nat ((s3 mod 4) * 64 + s4)] @ sextets_bytes rest"
| "sextets_bytes [s1, s2, s3] =
     [of_nat (s1 * 4 + s2 div 16), of_nat ((s2 mod 16) * 16 + s3 div 4)]"
| "sextets_bytes [s1, s2] = [of_nat (s1 * 4 + s2 div 16)]"
| "sextets_bytes other = []"

definition base64_decode :: "string \<Rightarrow> byte list" where
  "base64_decode s = sextets_bytes (b64_sextets s)"

subsection \<open>Reading the text of a key\<close>

text \<open>
  \<open>JSON.parse\<close> on the texts of objects whose members are strings, the shape of a
  continuation key: white space between the tokens, the escapes of string literals
  (\<open>\uXXXX\<close> up to U+00FF), a repeated name keeping its place and taking the later
  value. The result is \<open>None\<close> on every other text.
\<close>

definition hexval :: "char \<Rightarrow> nat option" where
  "hexval c =
     (case index_of c ''0123456789abcdef'' of
        Some v \<Rightarrow> Some v
      | None \<Rightarrow> index_of c ''0123456789ABCDEF'')"

text \<open>One character of a string literal, escaped or not, and the text after it.\<close>

fun unescape :: "string \<Rightarrow> (char \<times> string) option" where
  "unescape [] = None"
| "unescape (c # cs) =
     (if c = CHR 0x5C
      then (case cs of
              [] \<Rightarrow> None
            | e # rest \<Rightarrow>
                if e = CHR 0x22 then Some (CHR 0x22, rest)
                else if e = CHR 0x5C then Some (CHR 0x5C, rest)
                else if e = CHR ''/'' then Some (CHR ''/'', rest)
                else if e = CHR ''b'' then Some (CHR 0x08, rest)
                else if e = CHR ''f'' then Some (CHR 0x0C, rest)
                else if e = CHR ''n'' then Some (CHR 0x0A, rest)
                else if e = CHR ''r'' then Some (CHR 0x0D, rest)
                else if e = CHR ''t'' then Some (CHR 0x09, rest)
                else if e = CHR ''u''
                then (case rest of
                        h1 # h2 # h3 # h4 # rest' \<Rightarrow>
                          (case (hexval h1, hexval h2, hexval h3, hexval h4) of
                             (Some d1, Some d2, Some d3, Some d4) \<Rightarrow>
                               if d1 = 0 \<and> d2 = 0 then Some (char_of (d3 * 16 + d4), rest')
                               else None
                           | other \<Rightarrow> None)
                      | other \<Rightarrow> None)
                else None)
      else if (of_char c :: nat) < 32 then None
      else Some (c, cs))"

definition is_ws :: "char \<Rightarrow> bool" where
  "is_ws c = (c = CHR '' '' \<or> c = CHR 0x09 \<or> c = CHR 0x0A \<or> c = CHR 0x0D)"

text \<open>
  The reader's position in the grammar: before the object, after its brace, inside
  a name, before the colon, before the value, inside the value, after a member, after
  a comma, after the object.
\<close>

datatype kstate =
    Start
  | Opened
  | InName string
  | Colon string
  | BeforeValue string
  | InValue string string
  | AfterMember
  | AfterComma
  | Closed

text \<open>Every step of the reader consumes a part of the text.\<close>

lemma unescape_shorter: "unescape s = Some (c, rest) \<Longrightarrow> length rest < length s"
  by (cases s) (auto split: if_splits list.splits option.splits prod.splits)

function read_key :: "kstate \<Rightarrow> lastKey \<Rightarrow> string \<Rightarrow> lastKey option" where
  "read_key st ms [] = (if st = Closed then Some ms else None)"
| "read_key st ms (c # cs) =
     (case st of
        Start \<Rightarrow>
          if is_ws c then read_key Start ms cs
          else if c = CHR ''{'' then read_key Opened ms cs else None
      | Opened \<Rightarrow>
          if is_ws c then read_key Opened ms cs
          else if c = CHR ''}'' then read_key Closed ms cs
          else if c = CHR 0x22 then read_key (InName []) ms cs else None
      | InName acc \<Rightarrow>
          if c = CHR 0x22 then read_key (Colon acc) ms cs
          else (case unescape (c # cs) of
                  None \<Rightarrow> None
                | Some (x, rest) \<Rightarrow> read_key (InName (acc @ [x])) ms rest)
      | Colon name \<Rightarrow>
          if is_ws c then read_key (Colon name) ms cs
          else if c = CHR '':'' then read_key (BeforeValue name) ms cs else None
      | BeforeValue name \<Rightarrow>
          if is_ws c then read_key (BeforeValue name) ms cs
          else if c = CHR 0x22 then read_key (InValue name []) ms cs else None
      | InValue name acc \<Rightarrow>
          if c = CHR 0x22 then read_key AfterMember (AList.update name acc ms) cs
          else (case unescape (c # cs) of
                  None \<Rightarrow> None
                | Some (x, rest) \<Rightarrow> read_key (InValue name (acc @ [x])) ms rest)
      | AfterMember \<Rightarrow>
          if is_ws c then read_key AfterMember ms cs
          else if c = CHR '','' then read_key AfterComma ms cs
          else if c = CHR ''}'' then read_key Closed ms cs else None
      | AfterComma \<Rightarrow>
          if is_ws c then read_key AfterComma ms cs
          else if c = CHR 0x22 then read_key (InName []) ms cs else None
      | Closed \<Rightarrow> if is_ws c then read_key Closed ms cs else None)"
  by pat_completeness auto
termination
  by (relation "measure (\<lambda>(st, ms, s). length s)") (auto dest: unescape_shorter simp del: unescape.simps)

definition JSON_parse_key :: "string \<Rightarrow> lastKey option" where
  "JSON_parse_key s = read_key Start [] s"

text \<open>The two expressions of \<open>listJobs\<close> and \<open>listUsers\<close>.\<close>

definition encode_lastKey :: "lastKey \<Rightarrow> string" where
  "encode_lastKey k = base64_encode (utf8_encode (JSON_stringify (key_json k)))"

definition decode_lastKey :: "string \<Rightarrow> lastKey option" where
  "decode_lastKey token =
     (case utf8_decode (base64_decode token) of
        None \<Rightarrow> None
      | Some s \<Rightarrow> JSON_parse_key s)"

text \<open>The text of one member of a key, and the members of a list put one after the
  other into an object read so far.\<close>

definition member_text :: "string \<times> string \<Rightarrow> string" where
  "member_text kv = quote (fst kv) @ '':'' @ quote (snd kv)"

definition put_all :: "lastKey \<Rightarrow> lastKey \<Rightarrow> lastKey" where
  "put_all kvs ms = fold (\<lambda>kv. AList.update (fst kv) (snd kv)) kvs ms"

section \<open>Conversions of the language\<close>

text \<open>
  The members of an object literal whose value is not \<open>undefined\<close>:
  \<open>JSON.stringify\<close> leaves out a member with the value \<open>undefined\<close>.
\<close>

definition members :: "(string \<times> json option) list \<Rightarrow> jsobject" where
  "members ps = concat (map (\<lambda>p. case snd p of None \<Rightarrow> [] | Some v \<Rightarrow> [(fst p, v)]) ps)"

text \<open>
  \<open>String(v)\<close>, as a template literal, a regular expression test and \<open>parseInt\<close>
  convert their argument: an array joins the strings of its elements with a comma,
  \<open>null\<close> elements as the empty string; an object is \<open>[object Object]\<close>, and the
  conversion throws a \<open>TypeError\<close> (here \<open>None\<close>) when the object has a member of
  its own named \<open>toString\<close>, which a JSON value cannot make callable. The method
  call \<open>v.toString()\<close> has the same results on the values it is applied to here.
\<close>

fun to_string :: "json \<Rightarrow> string option" where
  "to_string JNull = Some ''null''"
| "to_string (JBool b) = Some (if b then ''true'' else ''false'')"
| "to_string (JNum n) = Some (show_int n)"
| "to_string (JStr s) = Some s"
| "to_string (JArr xs) =
     map_option (join '','')
       (those (map (\<lambda>x. if x = JNull then Some [] else to_string x) xs))"
| "to_string (JObj fs) =
     (case map_of fs ''toString'' of None \<Rightarrow> Some ''[object Object]'' | Some m \<Rightarrow> None)"

text \<open>White space as \<open>\s\<close> and \<open>parseInt\<close> read it, among the code points of the
  model.\<close>

definition is_space :: "char \<Rightarrow> bool" where
  "is_space c = (c \<in> set [CHR 0x09, CHR 0x0A, CHR 0x0B, CHR 0x0C, CHR 0x0D, CHR 0x20, CHR 0xA0])"

definition is_digit :: "char \<Rightarrow> bool" where
  "is_digit c = (c \<in> set ''0123456789'')"

text \<open>The value of a string of decimal digits.\<close>

definition digits_value :: "string \<Rightarrow> int" where
  "digits_value ds =
     foldl (\<lambda>n c. 10 * n + int (case index_of c ''0123456789'' of None \<Rightarrow> 0 | Some d \<Rightarrow> d)) 0 ds"

text \<open>
  \<open>parseInt(text, 10)\<close>: leading white space, an optional sign, then the longest
  run of decimal digits; \<open>NaN\<close> (here \<open>None\<close>) when there is no digit.
\<close>

definition parseInt10 :: "string \<Rightarrow> int option" where
  "parseInt10 s =
     (let t = dropWhile is_space s;
          negative = (t \<noteq> [] \<and> hd t = CHR ''-'');
          u = (if t \<noteq> [] \<and> (hd t = CHR ''-'' \<or> hd t = CHR ''+'') then tl t else t);
          ds = takeWhile is_digit u
      in if ds = [] then None
         else Some (if negative then - digits_value ds else digits_value ds))"

text \<open>\<open>/[A-Z]/.test(s)\<close>, \<open>/[a-z]/.test(s)\<close> and \<open>/[0-9]/.test(s)\<close> on a string.\<close>

definition has_upper :: "string \<Rightarrow> bool" where
  "has_upper s = list_ex (\<lambda>c. 65 \<le> (of_char c :: nat) \<and> (of_char c :: nat) \<le> 90) s"

definition has_lower :: "string \<Rightarrow> bool" where
  "has_lower s = list_ex (\<lambda>c. 97 \<le> (of_char c :: nat) \<and> (of_char c :: nat) \<le> 122) s"

definition has_digit :: "string \<Rightarrow> bool" where
  "has_digit s = list_ex is_digit s"

text \<open>
  The email expression \<open>/^[^\s@]+@[^\s@]+\.[^\s@]+$/\<close>: no white space, exactly one
  \<open>@\<close> with a character before it, and after it a dot that is neither the first
  nor the last character.
\<close>

definition email_matches :: "string \<Rightarrow> bool" where
  "email_matches s =
     (let domain = drop 1 (dropWhile (\<lambda>c. c \<noteq> CHR ''@'') s)
      in \<not> list_ex is_space s
         \<and> length (filter (\<lambda>c. c = CHR ''@'') s) = 1
         \<and> takeWhile (\<lambda>c. c \<noteq> CHR ''@'') s \<noteq> []
         \<and> CHR ''.'' \<in> set (butlast (drop 1 domain)))"

text \<open>
  The phone expression \<open>/^\+?[1-9]\d{1,14}$/\<close> on the number with its white space
  and hyphens removed (\<open>replace(/\s|-/g, '')\<close>).
\<close>

definition phone_matches :: "string \<Rightarrow> bool" where
  "phone_matches s =
     (let t = filter (\<lambda>c. \<not> is_space c \<and> c \<noteq> CHR ''-'') s;
          u = (if t \<noteq> [] \<and> hd t = CHR ''+'' then tl t else t)
      in 2 \<le> length u \<and> length u \<le> 15 \<and> list_all is_digit u \<and> hd u \<noteq> CHR ''0'')"

text \<open>
  \<open>v.length < 8\<close> on a truthy value: the length of a string or an array; a number
  and a boolean have no length and \<open>undefined < 8\<close> is false. An object has the
  length it carries as a member of its own: compared as a number when it is a number,
  \<open>null\<close> or a boolean; a member that needs a conversion from text is read as not
  below 8.
\<close>

definition length_below_8 :: "json \<Rightarrow> bool" where
  "length_below_8 v =
     (case v of
        JStr s \<Rightarrow> length s < 8
      | JArr xs \<Rightarrow> length xs < 8
      | JObj fs \<Rightarrow>
          (case map_of fs ''length'' of
             Some (JNum n) \<Rightarrow> n < 8
           | Some JNull \<Rightarrow> True
           | Some (JBool b) \<Rightarrow> True
           | other \<Rightarrow> False)
      | other \<Rightarrow> False)"

text \<open>
  \<open>v.length\<close> of a value other than \<open>null\<close>, as a JSON value: a string and an
  array have their length, an object the member it carries, every other value none.
\<close>

definition js_length :: "json \<Rightarrow> json option" where
  "js_length v =
     (case v of
        JStr s \<Rightarrow> Some (JNum (int (length s)))
      | JArr xs \<Rightarrow> Some (JNum (int (length xs)))
      | JObj fs \<Rightarrow> map_of fs ''length''
      | other \<Rightarrow> None)"

text \<open>A parameter of \<open>event.queryStringParameters || {}\<close>, read by name.\<close>

definition query_param :: "event \<Rightarrow> string \<Rightarrow> string option" where
  "query_param ev name =
     (case queryStringParameters ev of None \<Rightarrow> None | Some q \<Rightarrow> map_of q name)"

text \<open>
  What the datastore answers to a scan: the items of the page and, when the scan
  stopped before the end of the table, the key to go on from. A handler that scans
  takes the answer to its request as given: a result, or the error the client throws.
  The request's limit and filter decide what the datastore answers and nothing else
  in the handler. In the same way a handler of the identity provider takes the answer
  to its one call, a result object or the error the client throws.
\<close>

record scan_result =
  Items :: "item list"
  LastEvaluatedKey :: "lastKey option"

type_synonym scan_reply = "failure + scan_result"
type_synonym cognito_reply = "failure + jsobject"

section \<open>The other casting-job handlers\<close>

definition validCategories :: "string list" where
  "validCategories =
     [''Acting'', ''Singing'', ''Dancing'', ''Modeling'', ''Writing'', ''Editing'',
      ''Photography'', ''Makeup'', ''Voice Acting'', ''Comedy'', ''Production'', ''Design'']"

definition validJobTypes :: "string list" where
  "validJobTypes = [''Online'', ''Offline'']"

text \<open>
  The record \<open>createJob\<close> stores, built from a body whose required fields are
  truthy, the generated id and the single reading \<open>now\<close> of the clock.
\<close>

definition new_job :: "json \<Rightarrow> string \<Rightarrow> string \<Rightarrow> item" where
  "new_job b jobId now =
     [(''jobId'', JStr jobId),
      (''userId'', the (getp b ''userId'')),
      (''jobTitle'', the (getp b ''jobTitle'')),
      (''jobDescription'', the (getp b ''jobDescription'')),
      (''jobCategory'', the (getp b ''jobCategory'')),
      (''jobType'', the (getp b ''jobType'')),
      (''jobLocation'', with_default (getp b ''jobLocation'') (JArr [])),
      (''tags'', with_default (getp b ''tags'') (JArr [])),
      (''view'', JNum 0),
      (''verified'', JBool False),
      (''isExpired'', JBool False),
      (''isCollab'', or_else (getp b ''isCollab'') (JBool False)),
      (''isWishlisted'', JBool False),
      (''imageUrl'', or_else (getp b ''imageUrl'') (JStr [])),
      (''expiryDate'', or_else (getp b ''expiryDate'') JNull),
      (''applicationStatus'', JNum 0),
      (''appliedBy'', JArr []),
      (''recruiter'', with_default (getp b ''recruiter'') (JArr [])),
      (''requirements'', with_default (getp b ''requirements'') (JArr [])),
      (''documents'', with_default (getp b ''documents'') (JArr [])),
      (''createdAt'', JStr now),
      (''updatedAt'', JStr now)]"

definition createJob_try :: "env \<Rightarrow> table \<Rightarrow> event \<Rightarrow> failure + response \<times> table" where
  "createJob_try e t ev =
     (case parse_body ev of
        Inl err \<Rightarrow> Inl err
      | Inr b \<Rightarrow>
          if b = JNull then Inl (TypeError ''Cannot destructure property userId of null'')
          else
            (case validateRequiredFields b
                    [''userId'', ''jobTitle'', ''jobDescription'', ''jobCategory'', ''jobType''] of
               Some missing \<Rightarrow>
                 Inr (errorResponse 400
                        (''Missing required fields: '' @ join '', '' missing) None, t)
             | None \<Rightarrow>
                 if \<not> list_includes validCategories (getp b ''jobCategory'')
                 then Inr (errorResponse 400
                             (''Invalid jobCategory. Must be one of: ''
                              @ join '', '' validCategories) None, t)
                 else if \<not> list_includes validJobTypes (getp b ''jobType'')
                 then Inr (errorResponse 400 ''Invalid jobType. Must be Online or Offline'' None, t)
                 else
                   let jobId = uuid1 e; now = now1 e;
                       job = new_job b jobId now
                   in (case ddb_put_new t jobId job of
                         Inl err \<Rightarrow> Inl err
                       | Inr t' \<Rightarrow>
                           Inr (successResponse 201
                                  (JObj [(''success'', JBool True),
                                         (''message'', JStr ''Casting job created successfully''),
                                         (''job'', JObj job)]),
                                t'))))"

definition createJob :: "env \<Rightarrow> table \<Rightarrow> event \<Rightarrow> response \<times> table" where
  "createJob e t ev =
     (case createJob_try e t ev of
        Inl err \<Rightarrow>
          if errcode err = Some ''ConditionalCheckFailedException''
          then (errorResponse 409 ''Job already exists'' None, t)
          else (caught ''Failed to create job'' err, t)
      | Inr r \<Rightarrow> r)"

text \<open>
  The start key of a scan: none without the query parameter \<open>lastKey\<close>, else the
  value of \<open>JSON.parse(Buffer.from(lastKey, 'base64').toString())\<close>. The text
  \<open>null\<close> parses to \<open>null\<close>, which the client reads as no start key; a text that is
  not an object of strings is refused, by \<open>JSON.parse\<close> or by the client.
\<close>

definition trim_ws :: "string \<Rightarrow> string" where
  "trim_ws s = rev (dropWhile is_ws (rev (dropWhile is_ws s)))"

definition start_key :: "event \<Rightarrow> failure + lastKey option" where
  "start_key ev =
     (case query_param ev ''lastKey'' of
        None \<Rightarrow> Inr None
      | Some token \<Rightarrow>
          if token = [] then Inr None
          else (case utf8_decode (base64_decode token) of
             None \<Rightarrow> Inl (SyntaxError ''Unexpected token in JSON'')
           | Some s \<Rightarrow>
               if trim_ws s = ''null'' then Inr None
               else (case JSON_parse_key s of
                  None \<Rightarrow> Inl (SyntaxError ''Unexpected token in JSON'')
                | Some k \<Rightarrow> Inr (Some k))))"

text \<open>The page of a scan as \<open>listJobs\<close> and \<open>listUsers\<close> return it.\<close>

definition page :: "scan_result \<Rightarrow> json" where
  "page result =
     JObj [(''success'', JBool True),
           (''items'', JArr (map JObj (Items result))),
           (''count'', JNum (int (length (Items result)))),
           (''lastKey'', (case LastEvaluatedKey result of
                            None \<Rightarrow> JNull
                          | Some k \<Rightarrow> JStr (encode_lastKey k)))]"

definition listJobs :: "scan_reply \<Rightarrow> event \<Rightarrow> response" where
  "listJobs reply ev =
     (case start_key ev of
        Inl err \<Rightarrow> caught ''Failed to fetch jobs'' err
      | Inr startKey \<Rightarrow>
          (case reply of
             Inl err \<Rightarrow> caught ''Failed to fetch jobs'' err
           | Inr result \<Rightarrow> successResponse 200 (page result)))"

definition deleteJob :: "env \<Rightarrow> table \<Rightarrow> event \<Rightarrow> response \<times> table" where
  "deleteJob e t ev =
     (let jobId = map_of (pathParameters ev) ''jobId''
      in if missing_param jobId
         then (errorResponse 400 ''Missing required parameter: jobId'' None, t)
         else (case ddb_get t (the jobId) of
            None \<Rightarrow> (errorResponse 404 ''Job not found'' None, t)
          | Some existing \<Rightarrow>
              (successResponse 200
                 (JObj [(''success'', JBool True),
                        (''message'', JStr ''Job deleted successfully''),
                        (''deletedJobId'', JStr (the jobId))]),
               AList.delete (the jobId) t)))"

text \<open>
  \<open>getJobApplications\<close>: the attribute \<open>appliedBy\<close> or, when it is falsy, the empty
  list, with its \<open>length\<close>; a value without a length leaves \<open>count\<close> undefined and
  out of the body.
\<close>

definition getJobApplications :: "table \<Rightarrow> event \<Rightarrow> response" where
  "getJobApplications t ev =
     (let jobId = map_of (pathParameters ev) ''jobId''
      in if missing_param jobId
         then errorResponse 400 ''Missing required parameter: jobId'' None
         else (case ddb_get t (the jobId) of
            None \<Rightarrow> errorResponse 404 ''Job not found'' None
          | Some found \<Rightarrow>
              let applications = or_else (map_of found ''appliedBy'') (JArr [])
              in successResponse 200
                   (JObj (members
                      [(''success'', Some (JBool True)),
                       (''jobId'', Some (JStr (the jobId))),
                       (''applications'', Some applications),
                       (''count'', js_length applications)]))))"

text \<open>
  \<open>appliedBy.findIndex(app => app.userId === userId)\<close> followed by
  \<open>appliedBy[appIndex].status = status\<close>: the first entry of the user gets the
  status; \<open>None\<close> is the index -1. The search stops at the first match, and reading
  \<open>userId\<close> of a \<open>null\<close> entry before it throws.
\<close>

definition with_status :: "json \<Rightarrow> json \<Rightarrow> json" where
  "with_status app status =
     (case app of JObj fs \<Rightarrow> JObj (AList.update ''status'' status fs) | other \<Rightarrow> other)"

fun set_status :: "json list \<Rightarrow> string \<Rightarrow> json \<Rightarrow> failure + json list option" where
  "set_status [] uid status = Inr None"
| "set_status (app # apps) uid status =
     (if app = JNull then Inl (TypeError ''Cannot read properties of null (reading userId)'')
      else if strict_eq (getp app ''userId'') (Some (JStr uid))
      then Inr (Some (with_status app status # apps))
      else (case set_status apps uid status of
              Inl err \<Rightarrow> Inl err
            | Inr None \<Rightarrow> Inr None
            | Inr (Some rest) \<Rightarrow> Inr (Some (app # rest))))"

text \<open>\<open>parseInt(status, 10)\<close>: of the text of the status, \<open>undefined\<close> for a
  missing one.\<close>

definition status_number :: "json option \<Rightarrow> failure + int option" where
  "status_number status =
     (case status of
        None \<Rightarrow> Inr (parseInt10 ''undefined'')
      | Some v \<Rightarrow>
          (case to_string v of
             None \<Rightarrow> Inl (TypeError ''Cannot convert object to primitive value'')
           | Some s \<Rightarrow> Inr (parseInt10 s)))"

definition updateApplicationStatus_try ::
  "env \<Rightarrow> table \<Rightarrow> event \<Rightarrow> failure + response \<times> table" where
  "updateApplicationStatus_try e t ev =
     (case parse_body ev of
        Inl err \<Rightarrow> Inl err
      | Inr b \<Rightarrow>
          if b = JNull then Inl (TypeError ''Cannot destructure property status of null'')
          else
            let jobId = map_of (pathParameters ev) ''jobId'';
                userId = map_of (pathParameters ev) ''userId'';
                status = getp b ''status''
            in if missing_param jobId \<or> missing_param userId
               then Inr (errorResponse 400 ''Missing required parameters: jobId, userId'' None, t)
               else (case status_number status of
                  Inl err \<Rightarrow> Inl err
                | Inr n \<Rightarrow>
                    if n \<noteq> Some 1 \<and> n \<noteq> Some 2
                    then Inr (errorResponse 400
                                ''Invalid status. Must be 1 (Applied) or 2 (Shortlisted)'' None, t)
                    else (case ddb_get t (the jobId) of
                       None \<Rightarrow> Inr (errorResponse 404 ''Job not found'' None, t)
                     | Some existing \<Rightarrow>
                         (case or_else (map_of existing ''appliedBy'') (JArr []) of
                            JArr apps \<Rightarrow>
                              (case set_status apps (the userId) (the status) of
                                 Inl err \<Rightarrow> Inl err
                               | Inr None \<Rightarrow>
                                   Inr (errorResponse 404 ''Application not found'' None, t)
                               | Inr (Some appliedBy) \<Rightarrow>
                                   let attributes =
                                         ddb_set existing
                                           [(''appliedBy'', JArr appliedBy),
                                            (''updatedAt'', JStr (now1 e))]
                                   in Inr (successResponse 200
                                             (JObj [(''success'', JBool True),
                                                    (''message'', JStr ''Application status updated''),
                                                    (''job'', JObj attributes)]),
                                           ddb_write t (the jobId) attributes))
                          | other \<Rightarrow> Inl (TypeError ''appliedBy.findIndex is not a function'')))))"

definition updateApplicationStatus :: "env \<Rightarrow> table \<Rightarrow> event \<Rightarrow> response \<times> table" where
  "updateApplicationStatus e t ev =
     (case updateApplicationStatus_try e t ev of
        Inl err \<Rightarrow> (caught ''Failed to update application status'' err, t)
      | Inr r \<Rightarrow> r)"

text \<open>
  The update \<open>SET #view = if_not_exists(#view, :zero) + :inc, #updatedAt = :now\<close>
  under a key: an update creates the item when the key is new; the addition needs a
  number. It returns the item as written and the table after the write.
\<close>

definition increment_view ::
  "table \<Rightarrow> string \<Rightarrow> string \<Rightarrow> string \<Rightarrow> failure + item \<times> table" where
  "increment_view t keyName k now =
     (let stored = (case ddb_get t k of None \<Rightarrow> [(keyName, JStr k)] | Some it \<Rightarrow> it)
      in case (case map_of stored ''view'' of
                 None \<Rightarrow> Some 0
               | Some (JNum n) \<Rightarrow> Some n
               | Some other \<Rightarrow> None) of
           None \<Rightarrow> Inl (AWSError ''ValidationException''
                     ''An operand in the update expression has an incorrect data type'')
         | Some n \<Rightarrow>
             let attributes = ddb_set stored [(''view'', JNum (n + 1)), (''updatedAt'', JStr now)]
             in Inr (attributes, ddb_write t k attributes))"

definition incrementJobView :: "env \<Rightarrow> table \<Rightarrow> event \<Rightarrow> response \<times> table" where
  "incrementJobView e t ev =
     (let jobId = map_of (pathParameters ev) ''jobId''
      in if missing_param jobId
         then (errorResponse 400 ''Missing required parameter: jobId'' None, t)
         else (case increment_view t ''jobId'' (the jobId) (now1 e) of
            Inl err \<Rightarrow> (caught ''Failed to update job view'' err, t)
          | Inr (attributes, t') \<Rightarrow>
              (successResponse 200
                 (JObj (members
                    [(''success'', Some (JBool True)),
                     (''message'', Some (JStr ''Job view incremented'')),
                     (''view'', map_of attributes ''view'')])),
               t')))"

text \<open>
  \<open>getUserApplications\<close>: for every scanned job, the entries of
  \<open>(job.appliedBy || [])\<close> with the user's id, each spread into a new object with
  the job's id, title and category; a member set to \<open>undefined\<close> is left out of the
  body. \<open>filter\<close> exists on arrays only and visits every entry.
\<close>

definition put_member :: "string \<Rightarrow> json option \<Rightarrow> jsobject \<Rightarrow> jsobject" where
  "put_member name v fs =
     (case v of None \<Rightarrow> AList.delete name fs | Some x \<Rightarrow> AList.update name x fs)"

definition with_job :: "item \<Rightarrow> json \<Rightarrow> json" where
  "with_job job app =
     (case app of
        JObj fs \<Rightarrow>
          JObj (put_member ''jobCategory'' (map_of job ''jobCategory'')
                 (put_member ''jobTitle'' (map_of job ''jobTitle'')
                   (put_member ''jobId'' (map_of job ''jobId'') fs)))
      | other \<Rightarrow> other)"

fun user_apps :: "json list \<Rightarrow> string \<Rightarrow> failure + json list" where
  "user_apps [] uid = Inr []"
| "user_apps (app # apps) uid =
     (if app = JNull then Inl (TypeError ''Cannot read properties of null (reading userId)'')
      else (case user_apps apps uid of
              Inl err \<Rightarrow> Inl err
            | Inr rest \<Rightarrow>
                Inr (if strict_eq (getp app ''userId'') (Some (JStr uid))
                     then app # rest else rest)))"

definition job_applications :: "item \<Rightarrow> string \<Rightarrow> failure + json list" where
  "job_applications job uid =
     (if \<not> truthy (map_of job ''appliedBy'') then Inr []
      else (case map_of job ''appliedBy'' of
         Some (JArr apps) \<Rightarrow>
           (case user_apps apps uid of
              Inl err \<Rightarrow> Inl err
            | Inr userApps \<Rightarrow> Inr (map (with_job job) userApps))
       | other \<Rightarrow> Inl (TypeError ''filter is not a function'')))"

fun all_applications :: "item list \<Rightarrow> string \<Rightarrow> failure + json list" where
  "all_applications [] uid = Inr []"
| "all_applications (job # jobs) uid =
     (case job_applications job uid of
        Inl err \<Rightarrow> Inl err
      | Inr apps \<Rightarrow>
          (case all_applications jobs uid of
             Inl err \<Rightarrow> Inl err
           | Inr rest \<Rightarrow> Inr (apps @ rest)))"

definition getUserApplications :: "scan_reply \<Rightarrow> event \<Rightarrow> response" where
  "getUserApplications reply ev =
     (let userId = map_of (pathParameters ev) ''userId''
      in if missing_param userId
         then errorResponse 400 ''Missing required parameter: userId'' None
         else (case reply of
            Inl err \<Rightarrow> caught ''Failed to fetch user applications'' err
          | Inr result \<Rightarrow>
              (case all_applications (Items result) (the userId) of
                 Inl err \<Rightarrow> caught ''Failed to fetch user applications'' err
               | Inr userApplications \<Rightarrow>
                   successResponse 200
                     (JObj [(''success'', JBool True),
                            (''userId'', JStr (the userId)),
                            (''applications'', JArr userApplications),
                            (''count'', JNum (int (length userApplications)))]))))"

text \<open>The body of a search result.\<close>

definition found_items :: "string \<Rightarrow> string \<Rightarrow> scan_result \<Rightarrow> json" where
  "found_items q type' result =
     JObj [(''success'', JBool True),
           (''query'', JStr q),
           (''type'', JStr type'),
           (''count'', JNum (int (length (Items result)))),
           (''items'', JArr (map JObj (Items result)))]"

definition searchJobs :: "scan_reply \<Rightarrow> event \<Rightarrow> response" where
  "searchJobs reply ev =
     (let q = query_param ev ''q'';
          type' = (case query_param ev ''type'' of None \<Rightarrow> ''category'' | Some s \<Rightarrow> s)
      in if missing_param q
         then errorResponse 400 ''Missing required parameter: q'' None
         else if type' \<notin> set [''category'', ''title'', ''location'', ''tags'']
         then errorResponse 400
                ''Invalid search type. Use: category, title, location, or tags'' None
         else (case reply of
            Inl err \<Rightarrow> caught ''Failed to search jobs'' err
          | Inr result \<Rightarrow> successResponse 200 (found_items (the q) type' result)))"

section \<open>The other user handlers\<close>

definition getUserById :: "table \<Rightarrow> event \<Rightarrow> response" where
  "getUserById t ev =
     (let userId = map_of (pathParameters ev) ''userId''
      in if missing_param userId
         then errorResponse 400 ''Missing required parameter: userId'' None
         else (case ddb_get t (the userId) of
            None \<Rightarrow> errorResponse 404 ''User not found'' None
          | Some found \<Rightarrow>
              successResponse 200 (JObj [(''success'', JBool True), (''user'', JObj found)])))"

definition getUserByUsername :: "table \<Rightarrow> event \<Rightarrow> response" where
  "getUserByUsername t ev =
     (let username = map_of (pathParameters ev) ''username''
      in if missing_param username
         then errorResponse 400 ''Missing required parameter: username'' None
         else (case ddb_query_username t (JStr (the username)) of
            [] \<Rightarrow> errorResponse 404 ''User not found'' None
          | found # others \<Rightarrow>
              successResponse 200 (JObj [(''success'', JBool True), (''user'', JObj found)])))"

definition deleteUser :: "env \<Rightarrow> table \<Rightarrow> event \<Rightarrow> response \<times> table" where
  "deleteUser e t ev =
     (let userId = map_of (pathParameters ev) ''userId''
      in if missing_param userId
         then (errorResponse 400 ''Missing required parameter: userId'' None, t)
         else (case ddb_get t (the userId) of
            None \<Rightarrow> (errorResponse 404 ''User not found'' None, t)
          | Some existing \<Rightarrow>
              (successResponse 200
                 (JObj [(''success'', JBool True),
                        (''message'', JStr ''User deleted successfully''),
                        (''deletedUserId'', JStr (the userId))]),
               AList.delete (the userId) t)))"

definition listUsers :: "scan_reply \<Rightarrow> event \<Rightarrow> response" where
  "listUsers reply ev =
     (case start_key ev of
        Inl err \<Rightarrow> caught ''Failed to fetch users'' err
      | Inr startKey \<Rightarrow>
          (case reply of
             Inl err \<Rightarrow> caught ''Failed to fetch users'' err
           | Inr result \<Rightarrow> successResponse 200 (page result)))"

definition incrementUserView :: "env \<Rightarrow> table \<Rightarrow> event \<Rightarrow> response \<times> table" where
  "incrementUserView e t ev =
     (let userId = map_of (pathParameters ev) ''userId''
      in if missing_param userId
         then (errorResponse 400 ''Missing required parameter: userId'' None, t)
         else (case increment_view t ''userId'' (the userId) (now1 e) of
            Inl err \<Rightarrow> (caught ''Failed to update user view'' err, t)
          | Inr (attributes, t') \<Rightarrow>
              (successResponse 200
                 (JObj (members
                    [(''success'', Some (JBool True)),
                     (''message'', Some (JStr ''User view incremented'')),
                     (''view'', map_of attributes ''view'')])),
               t')))"

definition searchUsers :: "scan_reply \<Rightarrow> event \<Rightarrow> response" where
  "searchUsers reply ev =
     (let q = query_param ev ''q'';
          type' = (case query_param ev ''type'' of None \<Rightarrow> ''category'' | Some s \<Rightarrow> s)
      in if missing_param q
         then errorResponse 400 ''Missing required parameter: q'' None
         else if type' \<notin> set [''category'', ''skills'', ''username'']
         then errorResponse 400 ''Invalid search type. Use: category, skills, or username'' None
         else (case reply of
            Inl err \<Rightarrow> caught ''Failed to search users'' err
          | Inr result \<Rightarrow> successResponse 200 (found_items (the q) type' result)))"

section \<open>The handlers of the identity provider\<close>

text \<open>
  The checks of a signup before the provider is called. Each test of a regular
  expression converts its argument to its text first.
\<close>

definition email_check :: "json option \<Rightarrow> failure + bool" where
  "email_check email =
     (if \<not> truthy email then Inr True
      else (case to_string (the email) of
         None \<Rightarrow> Inl (TypeError ''Cannot convert object to primitive value'')
       | Some s \<Rightarrow> Inr (email_matches s)))"

definition phone_check :: "json option \<Rightarrow> failure + bool" where
  "phone_check phone_number =
     (if \<not> truthy phone_number then Inr True
      else (case phone_number of
         Some (JStr s) \<Rightarrow> Inr (phone_matches s)
       | other \<Rightarrow> Inl (TypeError ''phone_number.replace is not a function'')))"

text \<open>The password rules, in order: the message of the first rule that a truthy
  password breaks, or none.\<close>

definition password_check :: "json \<Rightarrow> failure + string option" where
  "password_check password =
     (if length_below_8 password then Inr (Some ''Password must be at least 8 characters'')
      else (case to_string password of
         None \<Rightarrow> Inl (TypeError ''Cannot convert object to primitive value'')
       | Some s \<Rightarrow>
           if \<not> has_upper s
           then Inr (Some ''Password must contain at least one uppercase letter'')
           else if \<not> has_lower s
           then Inr (Some ''Password must contain at least one lowercase letter'')
           else if \<not> has_digit s
           then Inr (Some ''Password must contain at least one number'')
           else Inr None))"

text \<open>\<open>error.code === name\<close> in a \<open>catch\<close> block.\<close>

definition has_code :: "failure \<Rightarrow> string \<Rightarrow> bool" where
  "has_code err name = (errcode err = Some name)"

definition signUp_try :: "cognito_reply \<Rightarrow> event \<Rightarrow> failure + response" where
  "signUp_try reply ev =
     (case parse_body ev of
        Inl err \<Rightarrow> Inl err
      | Inr b \<Rightarrow>
          if b = JNull then Inl (TypeError ''Cannot destructure property email of null'')
          else
            let email = getp b ''email''; phone_number = getp b ''phone_number'';
                password = getp b ''password''; name = getp b ''name''
            in if (\<not> truthy email \<and> \<not> truthy phone_number) \<or> \<not> truthy password \<or> \<not> truthy name
               then Inr (errorResponse 400
                           ''Missing required fields: (email or phone_number), password, name'' None)
               else if truthy email \<and> truthy phone_number
               then Inr (errorResponse 400 ''Provide either email or phone_number, not both'' None)
               else (case email_check email of
                  Inl err \<Rightarrow> Inl err
                | Inr False \<Rightarrow> Inr (errorResponse 400 ''Invalid email format'' None)
                | Inr True \<Rightarrow>
                    (case phone_check phone_number of
                       Inl err \<Rightarrow> Inl err
                     | Inr False \<Rightarrow>
                         Inr (errorResponse 400
                                ''Invalid phone number format. Use E.164 format: +country code + number''
                                None)
                     | Inr True \<Rightarrow>
                         (case password_check (the password) of
                            Inl err \<Rightarrow> Inl err
                          | Inr (Some broken) \<Rightarrow> Inr (errorResponse 400 broken None)
                          | Inr None \<Rightarrow>
                              (case reply of
                                 Inl err \<Rightarrow> Inl err
                               | Inr result \<Rightarrow>
                                   Inr (successResponse 201
                                          (JObj (members
                                             [(''success'', Some (JBool True)),
                                              (''message'', Some (JStr
                                                 ''User registered successfully. Check your email/SMS for confirmation code.'')),
                                              (''userId'', map_of result ''UserSub''),
                                              (''userConfirmed'', Some (JBool False))]))))))))"

definition signUp :: "cognito_reply \<Rightarrow> event \<Rightarrow> response" where
  "signUp reply ev =
     (case signUp_try reply ev of
        Inl err \<Rightarrow>
          if has_code err ''UsernameExistsException''
          then errorResponse 409 ''Email or phone number already registered'' None
          else if has_code err ''InvalidPasswordException''
          then errorResponse 400 ''Password does not meet requirements'' None
          else if has_code err ''InvalidParameterException''
          then errorResponse 400 ''Invalid parameters'' (Some (JStr (errmessage err)))
          else caught ''Signup failed'' err
      | Inr r \<Rightarrow> r)"

definition signIn_try :: "cognito_reply \<Rightarrow> event \<Rightarrow> failure + response" where
  "signIn_try reply ev =
     (case parse_body ev of
        Inl err \<Rightarrow> Inl err
      | Inr b \<Rightarrow>
          if b = JNull then Inl (TypeError ''Cannot destructure property email of null'')
          else
            let email = getp b ''email''; phone_number = getp b ''phone_number'';
                password = getp b ''password''
            in if (\<not> truthy email \<and> \<not> truthy phone_number) \<or> \<not> truthy password
               then Inr (errorResponse 400
                           ''Missing required fields: (email or phone_number), password'' None)
               else if truthy email \<and> truthy phone_number
               then Inr (errorResponse 400 ''Provide either email or phone_number, not both'' None)
               else (case reply of
                  Inl err \<Rightarrow> Inl err
                | Inr result \<Rightarrow>
                    if \<not> truthy (map_of result ''AuthenticationResult'')
                    then Inr (errorResponse 401 ''Authentication failed'' None)
                    else
                      let authenticated = the (map_of result ''AuthenticationResult'')
                      in Inr (successResponse 200
                                (JObj [(''success'', JBool True),
                                       (''message'', JStr ''Login successful''),
                                       (''tokens'', JObj (members
                                          [(''accessToken'', getp authenticated ''AccessToken''),
                                           (''idToken'', getp authenticated ''IdToken''),
                                           (''refreshToken'', getp authenticated ''RefreshToken''),
                                           (''expiresIn'', getp authenticated ''ExpiresIn'')]))]))))"

definition signIn :: "cognito_reply \<Rightarrow> event \<Rightarrow> response" where
  "signIn reply ev =
     (case signIn_try reply ev of
        Inl err \<Rightarrow>
          if has_code err ''UserNotFoundException''
          then errorResponse 401 ''Email or phone number not registered'' None
          else if has_code err ''NotAuthorizedException''
          then errorResponse 401 ''Invalid credentials'' None
          else if has_code err ''UserNotConfirmedException''
          then errorResponse 403
                 ''User email or phone not confirmed. Check your email/SMS for confirmation link.''
                 None
          else if has_code err ''InvalidParameterException''
          then errorResponse 400 ''Invalid parameters'' (Some (JStr (errmessage err)))
          else caught ''Login failed'' err
      | Inr r \<Rightarrow> r)"

text \<open>\<open>confirmationCode.toString()\<close> on a truthy code.\<close>

definition code_text :: "json \<Rightarrow> failure + string" where
  "code_text code =
     (case to_string code of
        None \<Rightarrow> Inl (TypeError ''confirmationCode.toString is not a function'')
      | Some s \<Rightarrow> Inr s)"

definition confirmSignUp_try :: "cognito_reply \<Rightarrow> event \<Rightarrow> failure + response" where
  "confirmSignUp_try reply ev =
     (case parse_body ev of
        Inl err \<Rightarrow> Inl err
      | Inr b \<Rightarrow>
          if b = JNull then Inl (TypeError ''Cannot destructure property email of null'')
          else
            let email = getp b ''email''; phone_number = getp b ''phone_number'';
                confirmationCode = getp b ''confirmationCode''
            in if (\<not> truthy email \<and> \<not> truthy phone_number) \<or> \<not> truthy confirmationCode
               then Inr (errorResponse 400
                           ''Missing required fields: (email or phone_number), confirmationCode''
                           None)
               else if truthy email \<and> truthy phone_number
               then Inr (errorResponse 400 ''Provide either email or phone_number, not both'' None)
               else (case code_text (the confirmationCode) of
                  Inl err \<Rightarrow> Inl err
                | Inr code \<Rightarrow>
                    (case reply of
                       Inl err \<Rightarrow> Inl err
                     | Inr result \<Rightarrow>
                         Inr (successResponse 200
                                (JObj [(''success'', JBool True),
                                       (''message'', JStr
                                          ''Email/Phone confirmed successfully. You can now login.'')])))))"

definition confirmSignUp :: "cognito_reply \<Rightarrow> event \<Rightarrow> response" where
  "confirmSignUp reply ev =
     (case confirmSignUp_try reply ev of
        Inl err \<Rightarrow>
          if has_code err ''UserNotFoundException''
          then errorResponse 404 ''Email or phone number not registered'' None
          else if has_code err ''CodeMismatchException''
          then errorResponse 400 ''Invalid confirmation code'' None
          else if has_code err ''ExpiredCodeException''
          then errorResponse 400 ''Confirmation code has expired. Please request a new one.'' None
          else if has_code err ''UserAlreadyConfirmedException''
          then errorResponse 400 ''User email/phone already confirmed'' None
          else if has_code err ''InvalidParameterException''
          then errorResponse 400 ''Invalid parameters'' (Some (JStr (errmessage err)))
          else caught ''Email/Phone confirmation failed'' err
      | Inr r \<Rightarrow> r)"

text \<open>The first checks of the four handlers that take only the email or the phone
  number: the body of the request, or the response that refuses it.\<close>

definition one_identity :: "event \<Rightarrow> failure + (response + json)" where
  "one_identity ev =
     (case parse_body ev of
        Inl err \<Rightarrow> Inl err
      | Inr b \<Rightarrow>
          if b = JNull then Inl (TypeError ''Cannot destructure property email of null'')
          else
            let email = getp b ''email''; phone_number = getp b ''phone_number''
            in if \<not> truthy email \<and> \<not> truthy phone_number
               then Inr (Inl (errorResponse 400
                                ''Missing required field: email or phone_number'' None))
               else if truthy email \<and> truthy phone_number
               then Inr (Inl (errorResponse 400
                                ''Provide either email or phone_number, not both'' None))
               else Inr (Inr b))"

definition resendConfirmationCode_try :: "cognito_reply \<Rightarrow> event \<Rightarrow> failure + response" where
  "resendConfirmationCode_try reply ev =
     (case one_identity ev of
        Inl err \<Rightarrow> Inl err
      | Inr (Inl refused) \<Rightarrow> Inr refused
      | Inr (Inr b) \<Rightarrow>
          (case reply of
             Inl err \<Rightarrow> Inl err
           | Inr result \<Rightarrow>
               Inr (successResponse 200
                      (JObj [(''success'', JBool True),
                             (''message'', JStr
                                ''Confirmation code resent to your email or phone'')]))))"

definition resendConfirmationCode :: "cognito_reply \<Rightarrow> event \<Rightarrow> response" where
  "resendConfirmationCode reply ev =
     (case resendConfirmationCode_try reply ev of
        Inl err \<Rightarrow>
          if has_code err ''UserNotFoundException''
          then errorResponse 404 ''Email or phone number not registered'' None
          else if has_code err ''UserAlreadyConfirmedException''
          then errorResponse 400 ''User email/phone already confirmed'' None
          else if has_code err ''InvalidParameterException''
          then errorResponse 400 ''Invalid parameters'' (Some (JStr (errmessage err)))
          else if has_code err ''LimitExceededException''
          then errorResponse 429 ''Too many requests. Please try again later.'' None
          else caught ''Resend confirmation code failed'' err
      | Inr r \<Rightarrow> r)"

text \<open>
  \<open>adminConfirmUser\<close> reads the user pool from the environment variable
  \<open>USER_POOL_ID\<close>; the message of its success is a template with the text of the
  user name, built after the provider's answer.
\<close>

definition adminConfirmUser_try ::
  "string option \<Rightarrow> cognito_reply \<Rightarrow> event \<Rightarrow> failure + response" where
  "adminConfirmUser_try userPoolId reply ev =
     (case one_identity ev of
        Inl err \<Rightarrow> Inl err
      | Inr (Inl refused) \<Rightarrow> Inr refused
      | Inr (Inr b) \<Rightarrow>
          let username = (if truthy (getp b ''email'') then the (getp b ''email'')
                          else the (getp b ''phone_number''))
          in if missing_param userPoolId
             then Inr (errorResponse 500 ''Server configuration error'' None)
             else (case reply of
                Inl err \<Rightarrow> Inl err
              | Inr result \<Rightarrow>
                  (case to_string username of
                     None \<Rightarrow> Inl (TypeError ''Cannot convert object to primitive value'')
                   | Some name \<Rightarrow>
                       Inr (successResponse 200
                              (JObj [(''success'', JBool True),
                                     (''message'', JStr
                                        (''User '' @ name
                                         @ '' confirmed successfully. They can now login.'')),
                                     (''confirmedUser'', username)])))))"

definition adminConfirmUser :: "string option \<Rightarrow> cognito_reply \<Rightarrow> event \<Rightarrow> response" where
  "adminConfirmUser userPoolId reply ev =
     (case adminConfirmUser_try userPoolId reply ev of
        Inl err \<Rightarrow>
          if has_code err ''UserNotFoundException''
          then errorResponse 404 ''Email or phone number not registered'' None
          else if has_code err ''UserAlreadyConfirmedException''
          then errorResponse 400 ''User email/phone already confirmed'' None
          else if has_code err ''InvalidParameterException''
          then errorResponse 400 ''Invalid parameters'' (Some (JStr (errmessage err)))
          else if has_code err ''NotAuthorizedException''
          then errorResponse 403 ''Not authorized to perform this action'' None
          else caught ''User confirmation failed'' err
      | Inr r \<Rightarrow> r)"

definition forgotPassword_try :: "cognito_reply \<Rightarrow> event \<Rightarrow> failure + response" where
  "forgotPassword_try reply ev =
     (case one_identity ev of
        Inl err \<Rightarrow> Inl err
      | Inr (Inl refused) \<Rightarrow> Inr refused
      | Inr (Inr b) \<Rightarrow>
          (case reply of
             Inl err \<Rightarrow> Inl err
           | Inr result \<Rightarrow>
               let details = map_of result ''CodeDeliveryDetails''
               in Inr (successResponse 200
                         (JObj [(''success'', JBool True),
                                (''message'', JStr
                                   ''Password reset code has been sent to your email or phone number''),
                                (''codeDeliveryDetails'', JObj (members
                                   [(''destination'', opt_chain details ''Destination''),
                                    (''deliveryMedium'', opt_chain details ''DeliveryMedium''),
                                    (''attributeName'', opt_chain details ''AttributeName'')]))]))))"

definition forgotPassword :: "cognito_reply \<Rightarrow> event \<Rightarrow> response" where
  "forgotPassword reply ev =
     (case forgotPassword_try reply ev of
        Inl err \<Rightarrow>
          if has_code err ''UserNotFoundException''
          then errorResponse 404 ''Email or phone number not registered'' None
          else if has_code err ''UserNotConfirmedException''
          then errorResponse 403
                 ''User email or phone not confirmed. Please confirm your account first.'' None
          else if has_code err ''InvalidParameterException''
          then errorResponse 400 ''Invalid parameters'' (Some (JStr (errmessage err)))
          else if has_code err ''LimitExceededException''
          then errorResponse 429 ''Too many requests. Please try again later.'' None
          else caught ''Failed to initiate password reset'' err
      | Inr r \<Rightarrow> r)"

definition resetPassword_try :: "cognito_reply \<Rightarrow> event \<Rightarrow> failure + response" where
  "resetPassword_try reply ev =
     (case parse_body ev of
        Inl err \<Rightarrow> Inl err
      | Inr b \<Rightarrow>
          if b = JNull then Inl (TypeError ''Cannot destructure property email of null'')
          else
            let email = getp b ''email''; phone_number = getp b ''phone_number'';
                confirmationCode = getp b ''confirmationCode'';
                newPassword = getp b ''newPassword''
            in if (\<not> truthy email \<and> \<not> truthy phone_number) \<or> \<not> truthy confirmationCode
                  \<or> \<not> truthy newPassword
               then Inr (errorResponse 400
                           ''Missing required fields: (email or phone_number), confirmationCode, newPassword''
                           None)
               else if truthy email \<and> truthy phone_number
               then Inr (errorResponse 400 ''Provide either email or phone_number, not both'' None)
               else (case password_check (the newPassword) of
                  Inl err \<Rightarrow> Inl err
                | Inr (Some broken) \<Rightarrow> Inr (errorResponse 400 broken None)
                | Inr None \<Rightarrow>
                    (case code_text (the confirmationCode) of
                       Inl err \<Rightarrow> Inl err
                     | Inr code \<Rightarrow>
                         (case reply of
                            Inl err \<Rightarrow> Inl err
                          | Inr result \<Rightarrow>
                              Inr (successResponse 200
                                     (JObj [(''success'', JBool True),
                                            (''message'', JStr
                                               ''Password reset successfully. You can now login with your new password.'')]))))))"

definition resetPassword :: "cognito_reply \<Rightarrow> event \<Rightarrow> response" where
  "resetPassword reply ev =
     (case resetPassword_try reply ev of
        Inl err \<Rightarrow>
          if has_code err ''UserNotFoundException''
          then errorResponse 404 ''Email or phone number not registered'' None
          else if has_code err ''CodeMismatchException''
          then errorResponse 400 ''Invalid or expired reset code'' None
          else if has_code err ''ExpiredCodeException''
          then errorResponse 400 ''Reset code has expired. Please request a new one.'' None
          else if has_code err ''InvalidPasswordException''
          then errorResponse 400 ''Password does not meet requirements'' None
          else if has_code err ''InvalidParameterException''
          then errorResponse 400 ''Invalid parameters'' (Some (JStr (errmessage err)))
          else if has_code err ''LimitExceededException''
          then errorResponse 429 ''Too many attempts. Please try again later.'' None
          else caught ''Password reset failed'' err
      | Inr r \<Rightarrow> r)"

section \<open>The other task handlers\<close>

text \<open>
  \<open>getTasks\<close> returns the answer of the scan of the task table, or the error, as
  its own serialisation. \<open>updateTask\<close> parses the body outside its \<open>try\<close> block, as
  \<open>createTask\<close> does, reads \<open>title\<close> and \<open>description\<close> of it inside, and returns
  the body it was sent when the datastore accepts the update, the error when it does
  not. Both take the answer of the datastore to their one request as given.
\<close>

type_synonym task_reply = "failure + json"

definition getTasks :: "task_reply \<Rightarrow> response" where
  "getTasks reply =
     (case reply of
        Inl err \<Rightarrow> bare_response 500 (error_json err)
      | Inr scanned \<Rightarrow> bare_response 200 scanned)"

definition updateTask :: "task_reply \<Rightarrow> event \<Rightarrow> response option" where
  "updateTask reply ev =
     (case parsedBody ev of
        None \<Rightarrow> None
      | Some data \<Rightarrow>
          if data = JNull
          then Some (bare_response 500
                       (error_json (TypeError ''Cannot read properties of null (reading title)'')))
          else (case reply of
             Inl err \<Rightarrow> Some (bare_response 500 (error_json err))
           | Inr updated \<Rightarrow> Some (bare_response 200 data)))"

section \<open>Reading the results\<close>

text \<open>A list attribute of an item, an absent attribute read as the empty list.\<close>

definition list_attr :: "item \<Rightarrow> string \<Rightarrow> json list" where
  "list_attr it attr = (case map_of it attr of Some (JArr xs) \<Rightarrow> xs | other \<Rightarrow> [])"




text \<open>
  The envelope of a response. The two CORS headers are present with their fixed
  values; a success body is an object that starts with \<open>success: true\<close> and a
  message, followed by the payload; a failure body is \<open>{success: false, message}\<close>,
  with \<open>details\<close> as an optional third member.
\<close>

definition cors_present :: "response \<Rightarrow> bool" where
  "cors_present r =
     (case headers r of
        None \<Rightarrow> False
      | Some hs \<Rightarrow>
          map_of hs ''Access-Control-Allow-Origin'' = Some (JStr ''*'')
          \<and> map_of hs ''Access-Control-Allow-Credentials'' = Some (JBool True))"

definition success_envelope :: "response \<Rightarrow> bool" where
  "success_envelope r =
     (\<exists>msg payload.
        body r = JSON_stringify
                   (JObj ((''success'', JBool True) # (''message'', JStr msg) # payload)))"

definition failure_envelope :: "response \<Rightarrow> bool" where
  "failure_envelope r =
     (\<exists>msg. body r = JSON_stringify (JObj [(''success'', JBool False), (''message'', JStr msg)])
        \<or> (\<exists>details. body r = JSON_stringify
               (JObj [(''success'', JBool False), (''message'', JStr msg),
                      (''details'', details)])))"

definition uniform_envelope :: "response \<Rightarrow> bool" where
  "uniform_envelope r =
     (cors_present r
      \<and> (if statusCode r < 400 then success_envelope r else failure_envelope r))"

text \<open>
  The envelope of a handler that only reads: the success body starts with
  \<open>success: true\<close> and has no \<open>message\<close> member.
\<close>

definition read_envelope :: "response \<Rightarrow> bool" where
  "read_envelope r =
     (cors_present r
      \<and> (if statusCode r < 400
         then \<exists>payload. body r = JSON_stringify (JObj ((''success'', JBool True) # payload))
                        \<and> map_of payload ''message'' = None
         else failure_envelope r))"

text \<open>
  The handlers of the service, by what they work on: the fifteen that write to the
  job table or the user table, the seven that call the identity provider (one of them
  with the user pool of the environment), the four that read one record, the five that
  scan, and the three task handlers, whose responses (none where the handler throws)
  are listed for a task table, an answer of the datastore and a request.
\<close>

definition writing_handlers :: "(env \<Rightarrow> table \<Rightarrow> event \<Rightarrow> response \<times> table) list" where
  "writing_handlers =
     [createJob, updateJob, deleteJob, applyForJob, updateApplicationStatus, incrementJobView,
      addDocument, removeDocument, createUser, updateUser, deleteUser, incrementUserView,
      addWorkExperience, addPortfolioItem, addConnection]"

definition identity_handlers ::
  "string option \<Rightarrow> (cognito_reply \<Rightarrow> event \<Rightarrow> response) list" where
  "identity_handlers userPoolId =
     [signUp, signIn, confirmSignUp, resendConfirmationCode, adminConfirmUser userPoolId,
      forgotPassword, resetPassword]"

definition record_readers :: "(table \<Rightarrow> event \<Rightarrow> response) list" where
  "record_readers = [getJobById, getJobApplications, getUserById, getUserByUsername]"

definition scan_readers :: "(scan_reply \<Rightarrow> event \<Rightarrow> response) list" where
  "scan_readers = [listJobs, getUserApplications, searchJobs, listUsers, searchUsers]"

definition task_responses :: "task_table \<Rightarrow> task_reply \<Rightarrow> event \<Rightarrow> response option list" where
  "task_responses tasks reply ev =
     [fst (createTask tasks ev), Some (getTasks reply), updateTask reply ev]"


section \<open>Sample data\<close>

text \<open>A job, a user, an environment and requests, for running the handlers.\<close>

definition env0 :: env where
  "env0 = \<lparr> uuid1 = ''id-1'', uuid2 = ''id-2'', now1 = ''2024-01-02T00:00:00.000Z'',
            now2 = ''2024-01-02T00:00:00.001Z'' \<rparr>"

definition job0 :: item where
  "job0 = [(''jobId'', JStr ''j1''), (''jobTitle'', JStr ''Lead''),
           (''appliedBy'', JArr []),
           (''documents'', JArr [JObj [(''id'', JStr ''d1''), (''url'', JStr ''u''),
                                      (''type'', JStr ''pdf'')]]),
           (''updatedAt'', JStr ''2024-01-01T00:00:00.000Z'')]"

definition jobs0 :: table where
  "jobs0 = [(''j1'', job0)]"

definition user0 :: item where
  "user0 = [(''userId'', JStr ''u1''), (''username'', JStr ''ann''),
            (''basicDetails'', JObj [(''firstName'', JStr ''Ann''), (''city'', JStr ''Pune'')]),
            (''updatedAt'', JStr ''2024-01-01T00:00:00.000Z'')]"

definition users0 :: table where
  "users0 = [(''u1'', user0)]"

definition job_request :: "json \<Rightarrow> event" where
  "job_request b = \<lparr> pathParameters = [(''jobId'', ''j1'')], queryStringParameters = None,
                     parsedBody = Some b \<rparr>"

definition user_request :: "json \<Rightarrow> event" where
  "user_request b = \<lparr> pathParameters = [(''userId'', ''u1'')], queryStringParameters = None,
                      parsedBody = Some b \<rparr>"

definition doc_request :: "string \<Rightarrow> event" where
  "doc_request docId =
     \<lparr> pathParameters = [(''jobId'', ''j1''), (''docId'', docId)],
       queryStringParameters = None, parsedBody = Some (JObj []) \<rparr>"

definition job_without_documents :: table where
  "job_without_documents = [(''j1'', [(''jobId'', JStr ''j1''), (''jobTitle'', JStr ''Lead'')])]"

definition create_x :: event where
  "create_x = \<lparr> pathParameters = [], queryStringParameters = None,
                parsedBody = Some (JObj [(''username'', JStr ''x''), (''email'', JStr ''x@y.com'')]) \<rparr>"

definition task_request :: event where
  "task_request = \<lparr> pathParameters = [], queryStringParameters = None,
                    parsedBody = Some (JObj [(''id'', JNum 1), (''title'', JStr ''t'')]) \<rparr>"

definition env1 :: env where
  "env1 = \<lparr> uuid1 = ''id-7'', uuid2 = ''id-8'', now1 = ''2024-01-03T00:00:00.000Z'',
            now2 = ''2024-01-03T00:00:00.001Z'' \<rparr>"

definition user1 :: item where
  "user1 = [(''userId'', JStr ''u1''), (''username'', JStr ''ann''),
            (''workExperience'', JArr [JObj [(''id'', JStr ''id-1''), (''brand'', JStr ''Old'')]]),
            (''portfolio'', JArr [JObj [(''id'', JStr ''p0''), (''url'', JStr ''a.png'')]]),
            (''connections'', JArr [JObj [(''connectionId'', JStr ''c0'')]])]"

definition users1 :: table where
  "users1 = [(''u1'', user1)]"

definition job1 :: item where
  "job1 = [(''jobId'', JStr ''j1''),
           (''appliedBy'', JArr [JObj [(''userId'', JStr ''u9''), (''appId'', JStr ''a0'')]]),
           (''documents'', JArr [JObj [(''id'', JStr ''d1''), (''url'', JStr ''u''),
                                      (''type'', JStr ''pdf'')]])]"

definition jobs1 :: table where
  "jobs1 = [(''j1'', job1)]"

definition work_body :: json where
  "work_body = JObj [(''workType'', JStr ''film''), (''brand'', JStr ''Acme'')]"

definition file_body :: json where
  "file_body = JObj [(''url'', JStr ''b.png''), (''type'', JStr ''image'')]"

definition link_body :: json where
  "link_body = JObj [(''senderId'', JStr ''u1''), (''receiverId'', JStr ''u2'')]"

definition apply_body :: json where
  "apply_body = JObj [(''userId'', JStr ''u1'')]"


definition job_post :: event where
  "job_post =
     \<lparr> pathParameters = [], queryStringParameters = None,
       parsedBody = Some (JObj [(''userId'', JStr ''u1''), (''jobTitle'', JStr ''Lead''),
                                (''jobDescription'', JStr ''A lead role''),
                                (''jobCategory'', JStr ''Acting''),
                                (''jobType'', JStr ''Online'')]) \<rparr>"

definition status_request :: event where
  "status_request =
     \<lparr> pathParameters = [(''jobId'', ''j1''), (''userId'', ''u9'')],
       queryStringParameters = None, parsedBody = Some (JObj [(''status'', JNum 2)]) \<rparr>"

definition query_request :: "(string \<times> string) list \<Rightarrow> event" where
  "query_request q =
     \<lparr> pathParameters = [(''userId'', ''u9'')], queryStringParameters = Some q,
       parsedBody = None \<rparr>"

definition username_request :: event where
  "username_request =
     \<lparr> pathParameters = [(''username'', ''ann'')], queryStringParameters = None,
       parsedBody = None \<rparr>"

definition page1 :: scan_result where
  "page1 = \<lparr> Items = [job1], LastEvaluatedKey = Some [(''jobId'', ''j1'')] \<rparr>"

definition post :: "json \<Rightarrow> event" where
  "post b = \<lparr> pathParameters = [], queryStringParameters = None, parsedBody = Some b \<rparr>"

definition signup_body :: json where
  "signup_body = JObj [(''email'', JStr ''ann@example.com''), (''password'', JStr ''Secret123''),
                       (''name'', JStr ''Ann'')]"

definition login_body :: json where
  "login_body = JObj [(''email'', JStr ''ann@example.com''), (''password'', JStr ''Secret123'')]"

definition confirm_body :: json where
  "confirm_body = JObj [(''email'', JStr ''ann@example.com''), (''confirmationCode'', JNum 42)]"

definition email_body :: json where
  "email_body = JObj [(''email'', JStr ''ann@example.com'')]"

definition reset_body :: json where
  "reset_body = JObj [(''phone_number'', JStr ''+919876543210''),
                      (''confirmationCode'', JStr ''123456''),
                      (''newPassword'', JStr ''Secret123'')]"

definition signed_in :: jsobject where
  "signed_in = [(''AuthenticationResult'',
                 JObj [(''AccessToken'', JStr ''at''), (''IdToken'', JStr ''it''),
                       (''RefreshToken'', JStr ''rt''), (''ExpiresIn'', JNum 60)])]"

definition scanned_tasks :: json where
  "scanned_tasks = JObj [(''Items'', JArr [JObj [(''id'', JNum 1), (''title'', JStr ''t'')]]),
                         (''Count'', JNum 1), (''ScannedCount'', JNum 1)]"

section \<open>Facts about the datastore and the responses\<close>

lemma map_of_ddb_set: "map_of (ddb_set it cl) = map_of it ++ map_of (rev cl)"
  unfolding ddb_set_def
  by (induction cl arbitrary: it) (simp_all add: update_conv' map_add_upd split_beta)

lemma ddb_get_write: "ddb_get (ddb_write t k it) k' = (if k' = k then Some it else ddb_get t k')"
  by (simp add: ddb_get_def ddb_write_def update_conv')

lemma map_of_rev_set_clauses:
  "map_of (rev (set_clauses F b)) f = (if f \<in> set F then getp b f else None)"
  by (induction F) (auto simp: set_clauses_def map_add_def split: option.splits)

lemma status_caught [simp]: "statusCode (caught m e) = 500"
  by (simp add: caught_def errorResponse_def)

lemma status_error [simp]: "statusCode (errorResponse c m d) = c"
  by (simp add: errorResponse_def)

lemma status_success [simp]: "statusCode (successResponse c p) = c"
  by (simp add: successResponse_def)

lemma update_list_append_result:
  assumes "update_list_append t k existing attr entry now = Inr (attrs, t')"
    and "attr \<noteq> ''updatedAt''"
  shows "ddb_get t' k = Some attrs"
    and "list_attr attrs attr = list_attr existing attr @ [entry]"
    and "map_of attrs attr = Some (JArr (list_attr existing attr @ [entry]))"
  using assms
  by (auto simp: update_list_append_def ddb_list_append_def list_attr_def map_of_ddb_set
        ddb_get_write Let_def split: option.splits json.splits)

lemma strict_eq_JStr: "strict_eq x (Some (JStr u)) = (x = Some (JStr u))"
  by (cases "(x, Some (JStr u))" rule: strict_eq.cases) auto

lemma strict_eq_same: "strict_eq a b \<Longrightarrow> a = b"
  by (cases "(a, b)" rule: strict_eq.cases) auto

section \<open>An update with no field is not rejected\<close>

text \<open>
  Whenever the record exists and the body is not \<open>null\<close>, \<open>updateJob\<close> reaches the
  write: the clause for \<open>updatedAt\<close> is added before the list of clauses is tested
  for emptiness, so the test never holds.
\<close>

lemma updateJob_writes:
  assumes "parsedBody ev = Some b" "b \<noteq> JNull"
    and "map_of (pathParameters ev) ''jobId'' = Some jobId" "jobId \<noteq> []"
    and "ddb_get t jobId = Some existing"
  shows "updateJob e t ev =
           (successResponse 200
              (JObj [(''success'', JBool True), (''message'', JStr ''Job updated successfully''),
                     (''job'', JObj (ddb_set existing
                        (set_clauses updateableJobFields b @ [(''updatedAt'', JStr (now1 e))])))]),
            ddb_write t jobId (ddb_set existing
               (set_clauses updateableJobFields b @ [(''updatedAt'', JStr (now1 e))])))"
  using assms by (simp add: updateJob_def parse_body_def Let_def)

lemma updatedAt_after_set:
  "map_of (ddb_set it (cl @ [(''updatedAt'', v)])) ''updatedAt'' = Some v"
  by (simp add: map_of_ddb_set)

text \<open>
  Claim C1. The claim says that an update whose body has none of the updateable
  fields is answered with 400, and that an update with a field sets \<open>updatedAt\<close>.
  On the code the first half fails: with the empty body \<open>{}\<close> both \<open>updateUser\<close> and
  \<open>updateJob\<close> answer 200 and write the stored record with the new \<open>updatedAt\<close>.
\<close>

theorem update_with_no_fields_succeeds:
  "statusCode (fst (updateUser env0 users0 (user_request (JObj [])))) = 200
   \<and> statusCode (fst (updateJob env0 jobs0 (job_request (JObj [])))) = 200
   \<and> map_of (the (ddb_get (snd (updateUser env0 users0 (user_request (JObj [])))) ''u1''))
         ''updatedAt'' = Some (JStr (now1 env0))
   \<and> map_of (the (ddb_get (snd (updateJob env0 jobs0 (job_request (JObj [])))) ''j1''))
         ''updatedAt'' = Some (JStr (now1 env0))"
  by (simp add: updateUser_def updateJob_def env0_def users0_def user0_def jobs0_def job0_def
        user_request_def job_request_def parse_body_def ddb_get_def ddb_write_def ddb_set_def
        set_clauses_def updateableUserFields_def updateableJobFields_def Let_def)

section \<open>A second application is a conflict\<close>

lemma some_userId_present:
  assumes "JNull \<notin> set apps" "\<exists>app \<in> set apps. getp app ''userId'' = Some (JStr u)"
  shows "some_userId apps (Some (JStr u)) = Inr True"
  using assms by (induction apps) (auto simp: strict_eq_JStr)

lemma some_userId_append:
  "some_userId xs u = Inr False \<Longrightarrow> some_userId (xs @ ys) u = some_userId ys u"
  by (induction xs) (auto split: if_splits)

text \<open>
  Claim C2. For a stored job whose \<open>appliedBy\<close> list has an entry with the user id
  \<open>u\<close> (the entries of the list being objects, none \<open>null\<close>), \<open>applyForJob\<close> with
  that user id answers 409 and leaves the table, and so the list, as it was. The scan
  of the list comes before the append.
\<close>

theorem applyForJob_duplicate_conflict:
  assumes "map_of (pathParameters ev) ''jobId'' = Some jobId" "jobId \<noteq> []"
    and "parsedBody ev = Some b" "getp b ''userId'' = Some (JStr u)" "u \<noteq> []"
    and "ddb_get t jobId = Some job" "map_of job ''appliedBy'' = Some (JArr apps)"
    and "JNull \<notin> set apps" "\<exists>app \<in> set apps. getp app ''userId'' = Some (JStr u)"
  shows "applyForJob e t ev = (errorResponse 409 ''You have already applied for this job'' None, t)"
proof -
  from assms(4) have "b \<noteq> JNull" by auto
  moreover have "validateRequiredFields b [''userId''] = None"
    using assms(4,5) by (simp add: validateRequiredFields_def)
  moreover have "alreadyApplied (map_of job ''appliedBy'') (Some (JStr u)) = Inr True"
    using assms(7-9) by (simp add: alreadyApplied_def some_userId_present)
  ultimately show ?thesis
    using assms(1-4,6)
    by (simp add: applyForJob_def applyForJob_try_def parse_body_def Let_def)
qed

theorem applyForJob_duplicate_conflict_witness:
  "statusCode (fst (applyForJob env0 jobs0 (job_request (JObj [(''userId'', JStr ''u1'')])))) = 201
   \<and> applyForJob env0
         (snd (applyForJob env0 jobs0 (job_request (JObj [(''userId'', JStr ''u1'')]))))
         (job_request (JObj [(''userId'', JStr ''u1'')]))
       = (errorResponse 409 ''You have already applied for this job'' None,
          snd (applyForJob env0 jobs0 (job_request (JObj [(''userId'', JStr ''u1'')]))))
   \<and> length (list_attr (the (ddb_get
         (snd (applyForJob env0 jobs0 (job_request (JObj [(''userId'', JStr ''u1'')])))) ''j1''))
         ''appliedBy'') = 1"
  using applyForJob_duplicate_conflict
          [of "job_request (JObj [(''userId'', JStr ''u1'')])" "''j1''"
              "JObj [(''userId'', JStr ''u1'')]" "''u1''"
              "snd (applyForJob env0 jobs0 (job_request (JObj [(''userId'', JStr ''u1'')])))"
              "the (ddb_get (snd (applyForJob env0 jobs0
                      (job_request (JObj [(''userId'', JStr ''u1'')])))) ''j1'')"
              "list_attr (the (ddb_get (snd (applyForJob env0 jobs0
                      (job_request (JObj [(''userId'', JStr ''u1'')])))) ''j1'')) ''appliedBy''"
              env0]
  by (simp add: applyForJob_def applyForJob_try_def env0_def jobs0_def job0_def job_request_def
        parse_body_def validateRequiredFields_def alreadyApplied_def update_list_append_def
        ddb_list_append_def ddb_get_def ddb_write_def ddb_set_def list_attr_def or_else_def
        Let_def)

text \<open>
  The same for two calls in a row: once \<open>applyForJob\<close> has answered 201, a second
  call for the same job whose user id is strictly equal to the first one's answers 409
  and changes nothing.
\<close>

theorem applyForJob_twice_conflict:
  assumes first: "statusCode (fst (applyForJob e1 t ev1)) = 201"
    and bodies: "parsedBody ev1 = Some b1" "parsedBody ev2 = Some b2"
    and same_job: "map_of (pathParameters ev2) ''jobId'' = map_of (pathParameters ev1) ''jobId''"
    and same_user: "strict_eq (getp b2 ''userId'') (getp b1 ''userId'')"
  shows "applyForJob e2 (snd (applyForJob e1 t ev1)) ev2
           = (errorResponse 409 ''You have already applied for this job'' None,
              snd (applyForJob e1 t ev1))"
proof -
  from first bodies(1) obtain jobId existing attrs t1 where
    b1: "b1 \<noteq> JNull" "truthy (getp b1 ''userId'')"
    and job: "map_of (pathParameters ev1) ''jobId'' = Some jobId" "jobId \<noteq> []"
             "ddb_get t jobId = Some existing"
    and scan0: "alreadyApplied (map_of existing ''appliedBy'') (getp b1 ''userId'') = Inr False"
    and upd0: "update_list_append t jobId existing ''appliedBy''
                (JObj [(''userId'', the (getp b1 ''userId'')), (''appId'', JStr (uuid1 e1)),
                       (''avatarUrl'', or_else (getp b1 ''avatarUrl'') (JStr []))]) (now1 e1)
              = Inr (attrs, t1)"
    and res: "snd (applyForJob e1 t ev1) = t1"
    by (auto simp: applyForJob_def applyForJob_try_def parse_body_def Let_def
          validateRequiredFields_def
          split: sum.splits option.splits if_splits prod.splits bool.splits)
  from b1(2) obtain uid where uid: "getp b1 ''userId'' = Some uid"
    by (cases "getp b1 ''userId''") auto
  note b1 = b1(1) uid b1(2) [unfolded uid]
  note scan = scan0 [unfolded uid] and upd = upd0 [unfolded uid option.sel]
  from same_user b1(2) have uid2: "getp b2 ''userId'' = Some uid"
    by (auto dest: strict_eq_same)
  then have b2: "b2 \<noteq> JNull" by auto
  have valid2: "validateRequiredFields b2 [''userId''] = None"
    using uid2 b1(3) by (simp add: validateRequiredFields_def)
  have eq: "strict_eq (Some uid) (Some uid)"
    using same_user uid2 b1(2) by simp
  have old: "some_userId (list_attr existing ''appliedBy'') (Some uid) = Inr False"
    using scan by (auto simp: alreadyApplied_def list_attr_def split: option.splits json.splits)
  have stored: "ddb_get t1 jobId = Some attrs"
    and applied: "map_of attrs ''appliedBy'' = Some (JArr (list_attr existing ''appliedBy'' @
                [JObj [(''userId'', uid), (''appId'', JStr (uuid1 e1)),
                       (''avatarUrl'', or_else (getp b1 ''avatarUrl'') (JStr []))]]))"
    using update_list_append_result(1,3) [OF upd] by simp_all
  have "alreadyApplied (map_of attrs ''appliedBy'') (Some uid) = Inr True"
    using old eq by (simp add: applied alreadyApplied_def some_userId_append)
  then show ?thesis
    unfolding res
    using bodies(2) b2 uid2 valid2 same_job job(1,2) stored
    by (simp add: applyForJob_def applyForJob_try_def parse_body_def Let_def)
qed

theorem applyForJob_twice_conflict_witness:
  "statusCode (fst (applyForJob env0 jobs0 (job_request (JObj [(''userId'', JNum 7)])))) = 201
   \<and> statusCode (fst (applyForJob env0
         (snd (applyForJob env0 jobs0 (job_request (JObj [(''userId'', JNum 7)]))))
         (job_request (JObj [(''userId'', JNum 7), (''avatarUrl'', JStr ''a.png'')])))) = 409"
  using applyForJob_twice_conflict
          [of env0 jobs0 "job_request (JObj [(''userId'', JNum 7)])" "JObj [(''userId'', JNum 7)]"
              "job_request (JObj [(''userId'', JNum 7), (''avatarUrl'', JStr ''a.png'')])"
              "JObj [(''userId'', JNum 7), (''avatarUrl'', JStr ''a.png'')]" env0]
  by (simp add: applyForJob_def applyForJob_try_def env0_def jobs0_def job0_def job_request_def
        parse_body_def validateRequiredFields_def alreadyApplied_def update_list_append_def
        ddb_list_append_def ddb_get_def ddb_write_def ddb_set_def or_else_def Let_def)

section \<open>Removing a document\<close>

lemma filter_documents_no_match:
  assumes "JNull \<notin> set docs"
    and "\<forall>doc \<in> set docs. getp doc ''id'' \<noteq> Some (JStr docId)"
  shows "filter_documents (Some (JArr docs)) docId = Inr docs"
proof -
  have "\<not> strict_eq (getp doc ''id'') (Some (JStr docId))" if "doc \<in> set docs" for doc
    using that assms(2) by (simp add: strict_eq_JStr)
  then have "filter (\<lambda>doc. \<not> strict_eq (getp doc ''id'') (Some (JStr docId))) docs = docs"
    by (simp add: filter_id_conv)
  with assms(1) show ?thesis by (simp add: filter_documents_def)
qed

text \<open>
  Where the job has a list of documents (objects, none \<open>null\<close>) and no document of
  the list has the id, \<open>removeDocument\<close> answers 404 and leaves the table as it was:
  the filtered list is as long as the stored one.
\<close>

theorem removeDocument_unknown_id_not_found:
  assumes "map_of (pathParameters ev) ''jobId'' = Some jobId" "jobId \<noteq> []"
    and "map_of (pathParameters ev) ''docId'' = Some docId" "docId \<noteq> []"
    and "ddb_get t jobId = Some job" "map_of job ''documents'' = Some (JArr docs)"
    and "JNull \<notin> set docs"
    and "\<forall>doc \<in> set docs. getp doc ''id'' \<noteq> Some (JStr docId)"
  shows "removeDocument e t ev = (errorResponse 404 ''Document not found'' None, t)"
  using assms filter_documents_no_match [of docs docId]
  by (simp add: removeDocument_def removeDocument_try_def missing_param_def
        documents_length_def Let_def)

theorem removeDocument_unknown_id_not_found_witness:
  "removeDocument env0 jobs0 (doc_request ''d2'')
     = (errorResponse 404 ''Document not found'' None, jobs0)
   \<and> length (list_attr job0 ''documents'') = 1"
  using removeDocument_unknown_id_not_found
          [of "doc_request ''d2''" "''j1''" "''d2''" jobs0 job0
              "[JObj [(''id'', JStr ''d1''), (''url'', JStr ''u''), (''type'', JStr ''pdf'')]]" env0]
  by (simp add: doc_request_def jobs0_def job0_def ddb_get_def list_attr_def)

text \<open>
  Claim C3. The claim says that for every stored job and every id that no document
  of the job has, \<open>removeDocument\<close> answers 404 and changes nothing. On the code this
  fails for a job whose \<open>documents\<close> attribute is \<open>null\<close> or absent: after
  \<open>updateJob\<close> has stored \<open>documents: null\<close>, removing any id answers 200 and writes
  an empty list; the same holds for a job stored without the attribute.
\<close>

theorem removeDocument_null_documents_returns_200:
  "statusCode (fst (updateJob env0 jobs0 (job_request (JObj [(''documents'', JNull)])))) = 200
   \<and> statusCode (fst (removeDocument env0
         (snd (updateJob env0 jobs0 (job_request (JObj [(''documents'', JNull)]))))
         (doc_request ''no-such-id''))) = 200
   \<and> map_of (the (ddb_get (snd (removeDocument env0
         (snd (updateJob env0 jobs0 (job_request (JObj [(''documents'', JNull)]))))
         (doc_request ''no-such-id''))) ''j1'')) ''documents'' = Some (JArr [])
   \<and> statusCode (fst (removeDocument env0 job_without_documents (doc_request ''no-such-id'')))
       = 200"
  by (simp add: updateJob_def removeDocument_def removeDocument_try_def env0_def jobs0_def
        job0_def job_without_documents_def job_request_def doc_request_def parse_body_def
        missing_param_def filter_documents_def documents_length_def ddb_get_def ddb_write_def
        ddb_set_def set_clauses_def updateableJobFields_def Let_def)

text \<open>
  Claim C9. For a stored job with no \<open>documents\<close> attribute, \<open>removeDocument\<close> with
  any document id answers 200, and the item it writes has the empty list as
  \<open>documents\<close> and the current time as \<open>updatedAt\<close>: the filtered list has length 0,
  the length of the absent attribute is \<open>undefined\<close>, and the two are never equal.
\<close>

theorem removeDocument_absent_documents:
  assumes "map_of (pathParameters ev) ''jobId'' = Some jobId" "jobId \<noteq> []"
    and "map_of (pathParameters ev) ''docId'' = Some docId" "docId \<noteq> []"
    and "ddb_get t jobId = Some job" "map_of job ''documents'' = None"
  shows "\<exists>written.
           removeDocument e t ev =
             (successResponse 200
                (JObj [(''success'', JBool True), (''message'', JStr ''Document removed''),
                       (''job'', JObj written)]),
              ddb_write t jobId written)
           \<and> map_of written ''documents'' = Some (JArr [])
           \<and> map_of written ''updatedAt'' = Some (JStr (now1 e))
           \<and> ddb_get (snd (removeDocument e t ev)) jobId = Some written"
  using assms
  by (simp add: removeDocument_def removeDocument_try_def missing_param_def filter_documents_def
        documents_length_def map_of_ddb_set ddb_get_write Let_def)

theorem removeDocument_absent_documents_witness:
  "statusCode (fst (removeDocument env0 job_without_documents (doc_request ''d1''))) = 200
   \<and> ddb_get (snd (removeDocument env0 job_without_documents (doc_request ''d1''))) ''j1''
       = Some [(''jobId'', JStr ''j1''), (''jobTitle'', JStr ''Lead''), (''documents'', JArr []),
               (''updatedAt'', JStr (now1 env0))]"
  using removeDocument_absent_documents [of "doc_request ''d1''" "''j1''" "''d1''"
          job_without_documents "[(''jobId'', JStr ''j1''), (''jobTitle'', JStr ''Lead'')]" env0]
  by (simp add: doc_request_def job_without_documents_def ddb_get_def
        removeDocument_def removeDocument_try_def missing_param_def filter_documents_def
        documents_length_def ddb_set_def ddb_write_def env0_def Let_def)

section \<open>An update replaces a nested object\<close>

text \<open>
  Claim C6. When \<open>updateUser\<close> succeeds and the body has a value for an updateable
  field (\<open>basicDetails\<close>, \<open>skills\<close>, any other), the stored attribute is exactly that
  value afterwards, whatever was stored before: nothing of the old object is merged
  into it.
\<close>

theorem updateUser_replaces_attribute:
  assumes "statusCode (fst (updateUser e t ev)) = 200"
    and "parsedBody ev = Some b" "field \<in> set updateableUserFields" "getp b field = Some v"
  shows "\<exists>userId stored.
           map_of (pathParameters ev) ''userId'' = Some userId
           \<and> ddb_get (snd (updateUser e t ev)) userId = Some stored
           \<and> map_of stored field = Some v"
proof -
  from assms(3) have "field \<noteq> ''updatedAt''"
    by (auto simp: updateableUserFields_def)
  with assms(3,4) have "map_of (ddb_set existing
            (set_clauses updateableUserFields b @ [(''updatedAt'', now)])) field = Some v"
    for existing now
    by (simp add: map_of_ddb_set map_add_def map_of_rev_set_clauses)
  with assms(1,2) show ?thesis
    by (auto simp: updateUser_def parse_body_def Let_def ddb_get_write
             split: option.splits if_splits)
qed

theorem updateUser_replaces_attribute_witness:
  "statusCode (fst (updateUser env0 users0
       (user_request (JObj [(''basicDetails'', JObj [(''firstName'', JStr ''Bea'')])])))) = 200
   \<and> map_of user0 ''basicDetails''
       = Some (JObj [(''firstName'', JStr ''Ann''), (''city'', JStr ''Pune'')])
   \<and> map_of (the (ddb_get (snd (updateUser env0 users0
       (user_request (JObj [(''basicDetails'', JObj [(''firstName'', JStr ''Bea'')])])))) ''u1''))
       ''basicDetails'' = Some (JObj [(''firstName'', JStr ''Bea'')])"
  using updateUser_replaces_attribute [of env0 users0
          "user_request (JObj [(''basicDetails'', JObj [(''firstName'', JStr ''Bea'')])])"
          "JObj [(''basicDetails'', JObj [(''firstName'', JStr ''Bea'')])]"
          "''basicDetails''" "JObj [(''firstName'', JStr ''Bea'')]"]
  by (simp add: updateUser_def env0_def users0_def user0_def user_request_def parse_body_def
        ddb_get_def ddb_write_def ddb_set_def set_clauses_def updateableUserFields_def Let_def)

section \<open>Appending to a list attribute\<close>



















section \<open>Creating a user\<close>

lemma new_user_fields:
  "map_of (new_user b bd userId now) ''username'' = Some (the (getp b ''username''))"
  "map_of (new_user b bd userId now) ''view'' = Some (JNum 0)"
  "map_of (new_user b bd userId now) ''createdAt'' = Some (JStr now)"
  "map_of (new_user b bd userId now) ''updatedAt'' = Some (JStr now)"
  by (simp_all add: new_user_def)

lemma createUser_conflict:
  assumes "parsedBody ev = Some b" "getp b ''username'' = Some (JStr u)" "u \<noteq> []"
    and "truthy (getp b ''email'')"
    and "ddb_query_username t (JStr u) \<noteq> []"
  shows "createUser e t ev = (errorResponse 409 ''Username already exists'' None, t)"
proof -
  from assms(2) have "b \<noteq> JNull" by auto
  moreover have "validateRequiredFields b [''username'', ''email''] = None"
    using assms(2-4) by (simp add: validateRequiredFields_def)
  ultimately show ?thesis
    using assms(1,2,5)
    by (simp add: createUser_def createUser_try_def parse_body_def Let_def)
qed

text \<open>
  Claim C4. A valid payload (a username \<open>u\<close>, an email, as in the payload with
  only \<open>x\<close> and \<open>x@y.com\<close>) on a table where no user has the username and the
  generated id is new: \<open>createUser\<close> answers 201, the created record has \<open>view\<close> 0
  and the same time as \<open>createdAt\<close> and \<open>updatedAt\<close>. On the table it leaves, every
  further valid payload with the username \<open>u\<close> is answered 409 whatever its other
  fields are, the query of the username index having a match.
\<close>

theorem createUser_created_then_conflict:
  assumes "parsedBody ev = Some b" "getp b ''username'' = Some (JStr u)" "u \<noteq> []"
    and "truthy (getp b ''email'')" "getp b ''basicDetails'' \<noteq> Some JNull"
    and "ddb_query_username t (JStr u) = []" "map_of t (uuid1 e) = None"
  shows "\<exists>user.
           createUser e t ev =
             (successResponse 201
                (JObj [(''success'', JBool True), (''message'', JStr ''User created successfully''),
                       (''user'', JObj user)]),
              t @ [(uuid1 e, user)])
           \<and> map_of user ''view'' = Some (JNum 0)
           \<and> map_of user ''createdAt'' = Some (JStr (now1 e))
           \<and> map_of user ''updatedAt'' = map_of user ''createdAt''
           \<and> (\<forall>e2 ev2 b2.
                 parsedBody ev2 = Some b2 \<and> getp b2 ''username'' = Some (JStr u)
                 \<and> truthy (getp b2 ''email'')
                 \<longrightarrow> createUser e2 (t @ [(uuid1 e, user)]) ev2
                     = (errorResponse 409 ''Username already exists'' None, t @ [(uuid1 e, user)]))"
proof -
  define bd where "bd = (case getp b ''basicDetails'' of None \<Rightarrow> JObj [] | Some v \<Rightarrow> v)"
  define user where "user = new_user b bd (uuid1 e) (now1 e)"
  from assms(2) have nonnull: "b \<noteq> JNull" by auto
  have valid: "validateRequiredFields b [''username'', ''email''] = None"
    using assms(2-4) by (simp add: validateRequiredFields_def)
  have bd: "bd \<noteq> JNull"
    using assms(5) by (auto simp: bd_def split: option.splits)
  have created: "createUser e t ev =
             (successResponse 201
                (JObj [(''success'', JBool True), (''message'', JStr ''User created successfully''),
                       (''user'', JObj user)]),
              t @ [(uuid1 e, user)])"
    using assms(1,2,6,7) nonnull valid bd
    by (simp add: createUser_def createUser_try_def parse_body_def Let_def ddb_put_new_def
          bd_def [symmetric] user_def [symmetric])
  have "ddb_query_username (t @ [(uuid1 e, user)]) (JStr u) \<noteq> []"
    using assms(2) by (simp add: ddb_query_username_def user_def new_user_fields)
  then have again: "createUser e2 (t @ [(uuid1 e, user)]) ev2
                     = (errorResponse 409 ''Username already exists'' None, t @ [(uuid1 e, user)])"
    if "parsedBody ev2 = Some b2" "getp b2 ''username'' = Some (JStr u)" "truthy (getp b2 ''email'')"
    for e2 ev2 b2
    using that assms(3) by (intro createUser_conflict)
  show ?thesis
    using created again by (intro exI [of _ user]) (auto simp: user_def new_user_fields)
qed

theorem createUser_created_then_conflict_witness:
  "statusCode (fst (createUser env0 [] create_x)) = 201
   \<and> map_of (snd (hd (snd (createUser env0 [] create_x)))) ''view'' = Some (JNum 0)
   \<and> map_of (snd (hd (snd (createUser env0 [] create_x)))) ''createdAt''
       = map_of (snd (hd (snd (createUser env0 [] create_x)))) ''updatedAt''
   \<and> statusCode (fst (createUser env0 (snd (createUser env0 [] create_x)) create_x)) = 409"
  using createUser_created_then_conflict
          [of create_x "JObj [(''username'', JStr ''x''), (''email'', JStr ''x@y.com'')]" "''x''"
              "[]" env0]
  by (simp add: createUser_def createUser_try_def create_x_def env0_def parse_body_def
        validateRequiredFields_def ddb_query_username_def ddb_put_new_def new_user_def
        or_else_def opt_chain_def Let_def)

section \<open>The envelope of the responses\<close>

lemma envelope_error [simp]: "400 \<le> c \<Longrightarrow> uniform_envelope (errorResponse c m d)"
  by (auto simp: uniform_envelope_def cors_present_def failure_envelope_def errorResponse_def
        errorBody_def corsHeaders_def split: option.splits)

lemma envelope_caught [simp]: "uniform_envelope (caught m e)"
  by (simp add: caught_def)

lemma envelope_success [simp]:
  "c < 400 \<Longrightarrow>
   uniform_envelope (successResponse c
     (JObj ((''success'', JBool True) # (''message'', JStr msg) # payload)))"
  unfolding uniform_envelope_def cors_present_def success_envelope_def successResponse_def
    corsHeaders_def
  by (simp del: JSON_stringify.simps) blast

lemma members_simps [simp]:
  "members [] = []"
  "members ((k, Some v) # ps) = (k, v) # members ps"
  "members ((k, None) # ps) = members ps"
  by (simp_all add: members_def)

lemma members_absent: "k \<notin> fst ` set ps \<Longrightarrow> map_of (members ps) k = None"
  by (induction ps) (auto simp: members_def split: option.splits)

lemma read_error [simp]: "400 \<le> c \<Longrightarrow> read_envelope (errorResponse c m d)"
  by (auto simp: read_envelope_def cors_present_def failure_envelope_def errorResponse_def
        errorBody_def corsHeaders_def split: option.splits)

lemma read_caught [simp]: "read_envelope (caught m e)"
  by (simp add: caught_def)

lemma read_success [simp]:
  "c < 400 \<Longrightarrow> map_of payload ''message'' = None \<Longrightarrow>
   read_envelope (successResponse c (JObj ((''success'', JBool True) # payload)))"
  unfolding read_envelope_def cors_present_def successResponse_def corsHeaders_def
  by (simp del: JSON_stringify.simps) blast

subsection \<open>The handlers that write\<close>

lemma envelope_createJob: "uniform_envelope (fst (createJob e t ev))"
  by (simp add: createJob_def createJob_try_def Let_def
        split: sum.splits option.splits prod.splits)

lemma envelope_updateJob: "uniform_envelope (fst (updateJob e t ev))"
  by (simp add: updateJob_def Let_def split: sum.splits option.splits)

lemma envelope_deleteJob: "uniform_envelope (fst (deleteJob e t ev))"
  by (simp add: deleteJob_def Let_def split: option.splits)

lemma envelope_applyForJob: "uniform_envelope (fst (applyForJob e t ev))"
  by (simp add: applyForJob_def applyForJob_try_def Let_def
        split: sum.splits option.splits bool.splits prod.splits)

lemma envelope_updateApplicationStatus:
  "uniform_envelope (fst (updateApplicationStatus e t ev))"
  by (simp add: updateApplicationStatus_def updateApplicationStatus_try_def Let_def
        split: sum.splits option.splits prod.splits json.splits)

lemma envelope_incrementJobView: "uniform_envelope (fst (incrementJobView e t ev))"
  by (simp add: incrementJobView_def Let_def split: sum.splits option.splits prod.splits)

lemma envelope_addDocument: "uniform_envelope (fst (addDocument e t ev))"
  by (simp add: addDocument_def addDocument_try_def Let_def
        split: sum.splits option.splits prod.splits)

lemma envelope_removeDocument: "uniform_envelope (fst (removeDocument e t ev))"
  by (simp add: removeDocument_def removeDocument_try_def Let_def
        split: sum.splits option.splits prod.splits)

lemma envelope_createUser: "uniform_envelope (fst (createUser e t ev))"
  by (simp add: createUser_def createUser_try_def Let_def
        split: sum.splits option.splits prod.splits)

lemma envelope_updateUser: "uniform_envelope (fst (updateUser e t ev))"
  by (simp add: updateUser_def Let_def split: sum.splits option.splits)

lemma envelope_deleteUser: "uniform_envelope (fst (deleteUser e t ev))"
  by (simp add: deleteUser_def Let_def split: option.splits)

lemma envelope_incrementUserView: "uniform_envelope (fst (incrementUserView e t ev))"
  by (simp add: incrementUserView_def Let_def split: sum.splits option.splits prod.splits)

lemma envelope_addWorkExperience: "uniform_envelope (fst (addWorkExperience e t ev))"
  by (simp add: addWorkExperience_def addWorkExperience_try_def Let_def
        split: sum.splits option.splits prod.splits)

lemma envelope_addPortfolioItem: "uniform_envelope (fst (addPortfolioItem e t ev))"
  by (simp add: addPortfolioItem_def addPortfolioItem_try_def Let_def
        split: sum.splits option.splits prod.splits)

lemma envelope_addConnection: "uniform_envelope (fst (addConnection e t ev))"
  by (simp add: addConnection_def addConnection_try_def Let_def
        split: sum.splits option.splits prod.splits)

lemma envelope_writing:
  "h \<in> set writing_handlers \<Longrightarrow> uniform_envelope (fst (h e t ev))"
  using envelope_createJob envelope_updateJob envelope_deleteJob envelope_applyForJob
    envelope_updateApplicationStatus envelope_incrementJobView envelope_addDocument
    envelope_removeDocument envelope_createUser envelope_updateUser envelope_deleteUser
    envelope_incrementUserView envelope_addWorkExperience envelope_addPortfolioItem
    envelope_addConnection
  by (auto simp: writing_handlers_def)

subsection \<open>The handlers of the identity provider\<close>

lemma envelope_signUp: "uniform_envelope (signUp reply ev)"
  by (simp add: signUp_def signUp_try_def Let_def
        split: sum.splits option.splits bool.splits)

lemma envelope_signIn: "uniform_envelope (signIn reply ev)"
  by (simp add: signIn_def signIn_try_def Let_def
        split: sum.splits option.splits bool.splits)

lemma envelope_confirmSignUp: "uniform_envelope (confirmSignUp reply ev)"
  by (simp add: confirmSignUp_def confirmSignUp_try_def Let_def
        split: sum.splits option.splits bool.splits)

lemma one_identity_refused:
  "one_identity ev = Inr (Inl refused) \<Longrightarrow> uniform_envelope refused"
  by (auto simp: one_identity_def Let_def split: sum.splits if_splits)

lemma envelope_resendConfirmationCode: "uniform_envelope (resendConfirmationCode reply ev)"
  by (simp add: resendConfirmationCode_def resendConfirmationCode_try_def one_identity_refused
        split: sum.splits option.splits bool.splits)

lemma envelope_adminConfirmUser: "uniform_envelope (adminConfirmUser userPoolId reply ev)"
  by (simp add: adminConfirmUser_def adminConfirmUser_try_def one_identity_refused Let_def
        split: sum.splits option.splits bool.splits)

lemma envelope_forgotPassword: "uniform_envelope (forgotPassword reply ev)"
  by (simp add: forgotPassword_def forgotPassword_try_def one_identity_refused Let_def
        split: sum.splits option.splits bool.splits)

lemma envelope_resetPassword: "uniform_envelope (resetPassword reply ev)"
  by (simp add: resetPassword_def resetPassword_try_def Let_def
        split: sum.splits option.splits bool.splits)

lemma envelope_identity:
  "a \<in> set (identity_handlers userPoolId) \<Longrightarrow> uniform_envelope (a reply ev)"
  using envelope_signUp envelope_signIn envelope_confirmSignUp envelope_resendConfirmationCode
    envelope_adminConfirmUser envelope_forgotPassword envelope_resetPassword
  by (auto simp: identity_handlers_def)

subsection \<open>The handlers that read\<close>

lemma read_getJobById: "read_envelope (getJobById t ev)"
  by (simp add: getJobById_def Let_def split: option.splits)

lemma read_getJobApplications: "read_envelope (getJobApplications t ev)"
  by (simp add: getJobApplications_def Let_def members_absent split: option.splits)

lemma read_getUserById: "read_envelope (getUserById t ev)"
  by (simp add: getUserById_def Let_def split: option.splits)

lemma read_getUserByUsername: "read_envelope (getUserByUsername t ev)"
  by (simp add: getUserByUsername_def Let_def split: list.splits)

lemma read_listJobs: "read_envelope (listJobs reply ev)"
  by (simp add: listJobs_def page_def split: sum.splits)

lemma read_listUsers: "read_envelope (listUsers reply ev)"
  by (simp add: listUsers_def page_def split: sum.splits)

lemma read_getUserApplications: "read_envelope (getUserApplications reply ev)"
  by (simp add: getUserApplications_def Let_def split: sum.splits)

lemma read_searchJobs: "read_envelope (searchJobs reply ev)"
  by (simp add: searchJobs_def found_items_def Let_def split: sum.splits)

lemma read_searchUsers: "read_envelope (searchUsers reply ev)"
  by (simp add: searchUsers_def found_items_def Let_def split: sum.splits)

lemma read_record: "g \<in> set record_readers \<Longrightarrow> read_envelope (g t ev)"
  using read_getJobById read_getJobApplications read_getUserById read_getUserByUsername
  by (auto simp: record_readers_def)

lemma read_scan: "s \<in> set scan_readers \<Longrightarrow> read_envelope (s reply ev)"
  using read_listJobs read_getUserApplications read_searchJobs read_listUsers read_searchUsers
  by (auto simp: scan_readers_def)

lemma getJobById_response:
  "if statusCode (getJobById t ev) = 200
   then \<exists>job. body (getJobById t ev)
                = JSON_stringify (JObj [(''success'', JBool True), (''job'', JObj job)])
   else failure_envelope (getJobById t ev)"
proof -
  have fail: "failure_envelope (errorResponse c m None)" for c m
    by (auto simp: failure_envelope_def errorResponse_def errorBody_def)
  have payload: "body (successResponse c p) = JSON_stringify p" for c p
    by (simp add: successResponse_def)
  show ?thesis
    by (auto simp: getJobById_def Let_def fail payload split: option.splits
             simp del: JSON_stringify.simps)
qed

subsection \<open>The task handlers\<close>

lemma bare_tasks:
  "Some r \<in> set (task_responses tasks reply ev) \<Longrightarrow> headers r = None"
  by (auto simp: task_responses_def createTask_def getTasks_def updateTask_def
        bare_response_def Let_def split: option.splits if_splits sum.splits)

subsection \<open>Every handler answers a sample request with success\<close>

lemma job_writers_succeed:
  "statusCode (fst (createJob env0 [] job_post)) = 201"
  "statusCode (fst (updateJob env0 jobs0 (job_request (JObj [(''jobTitle'', JStr ''Extra'')])))) = 200"
  "statusCode (fst (deleteJob env0 jobs0 (job_request JNull))) = 200"
  "statusCode (fst (applyForJob env0 jobs1 (job_request apply_body))) = 201"
  "statusCode (fst (updateApplicationStatus env0 jobs1 status_request)) = 200"
  "statusCode (fst (incrementJobView env0 jobs1 (job_request JNull))) = 200"
  "statusCode (fst (addDocument env0 jobs1 (job_request file_body))) = 201"
  "statusCode (fst (removeDocument env0 jobs0 (doc_request ''d1''))) = 200"
  by code_simp+

lemma user_writers_succeed:
  "statusCode (fst (createUser env0 [] create_x)) = 201"
  "statusCode (fst (updateUser env0 users0 (user_request (JObj [(''aboutMe'', JStr ''Hi'')])))) = 200"
  "statusCode (fst (deleteUser env0 users0 (user_request JNull))) = 200"
  "statusCode (fst (incrementUserView env0 users0 (user_request JNull))) = 200"
  "statusCode (fst (addWorkExperience env1 users1 (user_request work_body))) = 201"
  "statusCode (fst (addPortfolioItem env1 users1 (user_request file_body))) = 201"
  "statusCode (fst (addConnection env1 users1 (user_request link_body))) = 201"
  by code_simp+

lemma identity_handlers_succeed:
  "statusCode (signUp (Inr [(''UserSub'', JStr ''s-1'')]) (post signup_body)) = 201"
  "statusCode (signIn (Inr signed_in) (post login_body)) = 200"
  "statusCode (confirmSignUp (Inr []) (post confirm_body)) = 200"
  "statusCode (resendConfirmationCode (Inr []) (post email_body)) = 200"
  "statusCode (adminConfirmUser (Some ''pool-1'') (Inr []) (post email_body)) = 200"
  "statusCode (forgotPassword (Inr []) (post email_body)) = 200"
  "statusCode (resetPassword (Inr []) (post reset_body)) = 200"
  by code_simp+

lemma readers_succeed:
  "statusCode (getJobById jobs0 (job_request JNull)) = 200"
  "statusCode (getJobApplications jobs1 (job_request JNull)) = 200"
  "statusCode (getUserById users0 (user_request JNull)) = 200"
  "statusCode (getUserByUsername users0 username_request) = 200"
  "statusCode (listJobs (Inr page1) (query_request [(''lastKey'', ''eyJqb2JJZCI6ImEtMSJ9'')])) = 200"
  "statusCode (getUserApplications (Inr page1) (query_request [])) = 200"
  "statusCode (searchJobs (Inr page1) (query_request [(''q'', ''Acting'')])) = 200"
  "statusCode (listUsers (Inr page1) (query_request [])) = 200"
  "statusCode (searchUsers (Inr page1) (query_request [(''q'', ''ann''), (''type'', ''username'')])) = 200"
  by code_simp+

lemma task_handlers_succeed:
  "fst (createTask [] task_request)
     = Some (bare_response 200 (JObj [(''id'', JNum 1), (''title'', JStr ''t'')]))"
  "getTasks (Inr scanned_tasks) = bare_response 200 scanned_tasks"
  "updateTask (Inr (JObj [])) task_request
     = Some (bare_response 200 (JObj [(''id'', JNum 1), (''title'', JStr ''t'')]))"
  by code_simp+

lemma handlers_refuse:
  "statusCode (fst (applyForJob env0 jobs0 (job_request (JObj [])))) = 400"
  "statusCode (signIn (Inl (AWSError ''NotAuthorizedException'' ''Incorrect username or password.''))
                 (post login_body)) = 401"
  "statusCode (getUserById users0 (job_request JNull)) = 400"
  "statusCode (searchUsers (Inr page1) (query_request [(''q'', ''ann''), (''type'', ''title'')])) = 400"
  by code_simp+

subsection \<open>The success body of a handler that reads\<close>

lemma join_first: "\<exists>rest. join sep (x # xs) = x @ rest"
  by (cases xs) simp_all

lemma success_text_starts:
  "\<exists>rest. JSON_stringify (JObj ((''success'', JBool True) # (''message'', JStr msg) # payload))
            = CHR ''{'' # quote ''success'' @ '':true,'' @ quote ''message'' @ rest"
proof -
  obtain r where "join '','' (map (\<lambda>kv. quote (fst kv) @ '':'' @ JSON_stringify (snd kv))
                     ((''message'', JStr msg) # payload))
                  = (quote ''message'' @ '':'' @ JSON_stringify (JStr msg)) @ r"
    using join_first [of "'',''" "quote ''message'' @ '':'' @ JSON_stringify (JStr msg)"]
    by auto
  then show ?thesis
    by (simp del: JSON_stringify.simps(4))
qed

lemma getJobById_body_has_no_message:
  "\<not> success_envelope (getJobById jobs0 (job_request (JObj [])))"
proof
  assume "success_envelope (getJobById jobs0 (job_request (JObj [])))"
  then obtain msg payload where
    "body (getJobById jobs0 (job_request (JObj [])))
       = JSON_stringify (JObj ((''success'', JBool True) # (''message'', JStr msg) # payload))"
    unfolding success_envelope_def by blast
  moreover obtain rest where
    "JSON_stringify (JObj ((''success'', JBool True) # (''message'', JStr msg) # payload))
       = CHR ''{'' # quote ''success'' @ '':true,'' @ quote ''message'' @ rest"
    using success_text_starts by blast
  moreover have "body (getJobById jobs0 (job_request (JObj [])))
       = CHR ''{'' # quote ''success'' @ '':true,'' @ quote ''job'' @ '':''
           @ JSON_stringify (JObj job0) @ ''}''"
    by (simp add: getJobById_def job_request_def jobs0_def missing_param_def ddb_get_def
          successResponse_def Let_def del: JSON_stringify.simps(6))
       (simp)
  ultimately have "quote ''job'' @ '':'' @ JSON_stringify (JObj job0) @ ''}''
                    = quote ''message'' @ rest"
    by (simp del: JSON_stringify.simps)
  then show False
    by (simp add: quote_def escape_char_def)
qed

text \<open>
  Claim C8, as the code has it. Every response built by \<open>successResponse\<close> or
  \<open>errorResponse\<close> carries the two CORS headers; \<open>errorResponse\<close> sends the
  failure envelope and \<open>successResponse\<close> the payload it is given. Every response of
  the fifteen handlers that write to the job table or the user table and of the seven
  handlers of the identity provider carries the headers and the envelope: below status
  400 a body that starts with \<open>success: true\<close> and a message, from 400 on the body
  \<open>{success: false, message}\<close> with \<open>details\<close> as an optional third member. Every
  response of the nine handlers that only read carries the headers and, from 400 on,
  the same failure envelope; below 400 its body starts with \<open>success: true\<close> and has
  no message, as \<open>{success: true, job}\<close> of \<open>getJobById\<close>. Every response of the three
  task handlers is a status and a body with no header at all.
\<close>

theorem responses_carry_envelope:
  "cors_present (successResponse c payload)
   \<and> body (successResponse c payload) = JSON_stringify payload
   \<and> cors_present (errorResponse c' msg details)
   \<and> failure_envelope (errorResponse c' msg details)
   \<and> (h \<in> set writing_handlers \<longrightarrow> uniform_envelope (fst (h e t ev)))
   \<and> (a \<in> set (identity_handlers userPoolId) \<longrightarrow> uniform_envelope (a answer ev))
   \<and> (g \<in> set record_readers \<longrightarrow> read_envelope (g t ev))
   \<and> (s \<in> set scan_readers \<longrightarrow> read_envelope (s scanned ev))
   \<and> (if statusCode (getJobById t ev) = 200
      then \<exists>job. body (getJobById t ev)
                   = JSON_stringify (JObj [(''success'', JBool True), (''job'', JObj job)])
      else failure_envelope (getJobById t ev))
   \<and> (Some r \<in> set (task_responses tasks reply ev) \<longrightarrow> headers r = None)"
proof -
  have "cors_present (successResponse c payload)"
    "body (successResponse c payload) = JSON_stringify payload"
    "cors_present (errorResponse c' msg details)"
    by (simp_all add: cors_present_def successResponse_def errorResponse_def corsHeaders_def)
  moreover have "failure_envelope (errorResponse c' msg details)"
    by (auto simp: failure_envelope_def errorResponse_def errorBody_def split: option.splits)
  ultimately show ?thesis
    using envelope_writing [of h e t ev] envelope_identity [of a userPoolId answer ev]
      read_record [of g t ev] read_scan [of s scanned ev] getJobById_response [of t ev]
      bare_tasks [of r tasks reply ev]
    by blast
qed

theorem responses_carry_envelope_witness:
  "uniform_envelope (fst (createJob env0 [] job_post))
   \<and> statusCode (fst (createJob env0 [] job_post)) = 201
   \<and> uniform_envelope (fst (applyForJob env0 jobs0 (job_request (JObj []))))
   \<and> statusCode (fst (applyForJob env0 jobs0 (job_request (JObj [])))) = 400
   \<and> uniform_envelope (signUp (Inr [(''UserSub'', JStr ''s-1'')]) (post signup_body))
   \<and> statusCode (signUp (Inr [(''UserSub'', JStr ''s-1'')]) (post signup_body)) = 201
   \<and> uniform_envelope
       (signIn (Inl (AWSError ''NotAuthorizedException'' ''Incorrect username or password.''))
          (post login_body))
   \<and> statusCode
       (signIn (Inl (AWSError ''NotAuthorizedException'' ''Incorrect username or password.''))
          (post login_body)) = 401
   \<and> read_envelope (getJobApplications jobs1 (job_request JNull))
   \<and> statusCode (getJobApplications jobs1 (job_request JNull)) = 200
   \<and> read_envelope (getUserById users0 (job_request JNull))
   \<and> statusCode (getUserById users0 (job_request JNull)) = 400
   \<and> read_envelope (listJobs (Inr page1) (query_request [(''lastKey'', ''eyJqb2JJZCI6ImEtMSJ9'')]))
   \<and> statusCode (listJobs (Inr page1) (query_request [(''lastKey'', ''eyJqb2JJZCI6ImEtMSJ9'')])) = 200
   \<and> headers (bare_response 200 (JObj [(''id'', JNum 1), (''title'', JStr ''t'')])) = None
   \<and> fst (createTask [] task_request)
       = Some (bare_response 200 (JObj [(''id'', JNum 1), (''title'', JStr ''t'')]))"
  using responses_carry_envelope
          [where h = createJob and e = env0 and t = "[]" and ev = job_post
             and a = signUp and userPoolId = None
             and answer = "Inr [(''UserSub'', JStr ''s-1'')]" and g = getJobById
             and s = listJobs and scanned = "Inr page1" and tasks = "[]"
             and reply = "Inr scanned_tasks" and r = "getTasks (Inr scanned_tasks)"]
        responses_carry_envelope
          [where h = applyForJob and e = env0 and t = jobs0 and ev = "job_request (JObj [])"
             and a = signUp and userPoolId = None and answer = "Inr []" and g = getJobById
             and s = listJobs and scanned = "Inr page1" and tasks = "[]"
             and reply = "Inr scanned_tasks" and r = "getTasks (Inr scanned_tasks)"]
        responses_carry_envelope
          [where h = createJob and e = env0 and t = jobs1 and ev = "job_request JNull"
             and a = signUp and userPoolId = None and answer = "Inr []"
             and g = getJobApplications
             and s = listJobs and scanned = "Inr page1" and tasks = "[]"
             and reply = "Inr scanned_tasks" and r = "getTasks (Inr scanned_tasks)"]
        responses_carry_envelope
          [where h = createJob and e = env0 and t = users0 and ev = "job_request JNull"
             and a = signUp and userPoolId = None and answer = "Inr []"
             and g = getUserById
             and s = listJobs and scanned = "Inr page1" and tasks = "[]"
             and reply = "Inr scanned_tasks" and r = "getTasks (Inr scanned_tasks)"]
        responses_carry_envelope
          [where h = createJob and e = env0 and t = "[]"
             and ev = "query_request [(''lastKey'', ''eyJqb2JJZCI6ImEtMSJ9'')]"
             and a = signUp and userPoolId = None and answer = "Inr []" and g = getJobById
             and s = listJobs and scanned = "Inr page1" and tasks = "[]"
             and reply = "Inr scanned_tasks" and r = "getTasks (Inr scanned_tasks)"]
        responses_carry_envelope
          [where h = createJob and e = env0 and t = "[]" and ev = "post signup_body"
             and a = signUp and userPoolId = None
             and answer = "Inr [(''UserSub'', JStr ''s-1'')]" and g = getJobById
             and s = listJobs and scanned = "Inr page1" and tasks = "[]"
             and reply = "Inr scanned_tasks" and r = "getTasks (Inr scanned_tasks)"]
        responses_carry_envelope
          [where h = createJob and e = env0 and t = "[]" and ev = "post login_body"
             and a = signIn and userPoolId = None
             and answer = "Inl (AWSError ''NotAuthorizedException'' ''Incorrect username or password.'')"
             and g = getJobById
             and s = listJobs and scanned = "Inr page1" and tasks = "[]"
             and reply = "Inr scanned_tasks" and r = "getTasks (Inr scanned_tasks)"]
        responses_carry_envelope
          [where tasks = "[]" and reply = "Inr scanned_tasks" and ev = task_request
             and r = "bare_response 200 (JObj [(''id'', JNum 1), (''title'', JStr ''t'')])"]
        job_writers_succeed(1) identity_handlers_succeed(1) readers_succeed(2,5)
        handlers_refuse(1,2,3) task_handlers_succeed(1)
  by (simp add: writing_handlers_def identity_handlers_def record_readers_def scan_readers_def
        task_responses_def del: JSON_stringify.simps)

text \<open>
  Claim C8 as stated fails on the task handlers and on the handlers that read: the
  response of \<open>createTask\<close> to a valid task has no header and its body is the task
  itself, not an envelope; the response of \<open>getJobById\<close> to the id of a stored job
  has status 200 and the body \<open>{success: true, job}\<close>, which is no body that starts
  with \<open>success: true\<close> and a message.
\<close>

theorem createTask_response_has_no_envelope:
  "\<not> uniform_envelope (the (fst (createTask [] task_request)))
   \<and> \<not> cors_present (the (fst (createTask [] task_request)))
   \<and> statusCode (the (fst (createTask [] task_request))) = 200
   \<and> body (the (fst (createTask [] task_request)))
       = JSON_stringify (JObj [(''id'', JNum 1), (''title'', JStr ''t'')])
   \<and> statusCode (getJobById jobs0 (job_request (JObj []))) = 200
   \<and> body (getJobById jobs0 (job_request (JObj [])))
       = JSON_stringify (JObj [(''success'', JBool True), (''job'', JObj job0)])
   \<and> \<not> success_envelope (getJobById jobs0 (job_request (JObj [])))"
  using getJobById_body_has_no_message
  by (simp add: createTask_def task_request_def bare_response_def uniform_envelope_def
        cors_present_def set_clauses_def getJobById_def job_request_def jobs0_def
        missing_param_def ddb_get_def successResponse_def Let_def
        del: JSON_stringify.simps)

section \<open>A pagination token reads back as the key\<close>

subsection \<open>UTF-8\<close>

lemma unat_of_nat_byte: "n < 256 \<Longrightarrow> unat (of_nat n :: byte) = n"
  by (simp add: unat_of_nat)

lemma utf8_decode_one:
  "unat b < 128 \<Longrightarrow> utf8_decode (b # bs) = map_option (Cons (char_of (unat b))) (utf8_decode bs)"
  by simp

lemma utf8_decode_two:
  assumes "unat b1 = 192 + h" "h = 2 \<or> h = 3" "unat b2 = 128 + l" "l < 64"
  shows "utf8_decode (b1 # b2 # bs) = map_option (Cons (char_of (h * 64 + l))) (utf8_decode bs)"
  using assms by auto

lemma utf8_decode_char:
  "utf8_decode (utf8_char c @ bs) = map_option (Cons c) (utf8_decode bs)"
proof -
  let ?n = "of_char c :: nat"
  have n: "?n < 256" by simp
  show ?thesis
  proof (cases "?n < 128")
    case True
    then have enc: "utf8_char c = [of_nat ?n]"
      by (simp add: utf8_char_def)
    have "unat (of_nat ?n :: byte) = ?n"
      using n by (rule unat_of_nat_byte)
    with True show ?thesis
      unfolding enc by (simp del: utf8_decode.simps add: utf8_decode_one)
  next
    case False
    then have enc: "utf8_char c = [of_nat (192 + ?n div 64), of_nat (128 + ?n mod 64)]"
      by (simp only: utf8_char_def Let_def if_False)
    from False n have hi: "?n div 64 = 2 \<or> ?n div 64 = 3" by arith
    have lo: "?n mod 64 < 64" by simp
    from hi have lead: "unat (of_nat (192 + ?n div 64) :: byte) = 192 + ?n div 64"
      by (intro unat_of_nat_byte) auto
    have cont: "unat (of_nat (128 + ?n mod 64) :: byte) = 128 + ?n mod 64"
      using lo by (intro unat_of_nat_byte) simp
    have "(?n div 64) * 64 + ?n mod 64 = ?n" by simp
    then have orig: "char_of ((?n div 64) * 64 + ?n mod 64) = c" by simp
    show ?thesis
      unfolding enc append_Cons append_Nil utf8_decode_two [OF lead hi cont lo] orig ..
  qed
qed

lemma utf8_roundtrip: "utf8_decode (utf8_encode s) = Some s"
  by (induction s) (simp_all add: utf8_encode_def utf8_decode_char del: utf8_decode.simps(2))

subsection \<open>Base64\<close>

lemma index_of_nth: "distinct xs \<Longrightarrow> n < length xs \<Longrightarrow> index_of (xs ! n) xs = Some n"
proof (induction xs arbitrary: n)
  case Nil
  then show ?case by simp
next
  case (Cons x xs)
  show ?case
  proof (cases n)
    case 0
    then show ?thesis by simp
  next
    case (Suc m)
    with Cons.prems have "xs ! m \<noteq> x" by auto
    with Suc Cons show ?thesis by simp
  qed
qed

lemma b64_alphabet_facts:
  "distinct b64_alphabet" "length b64_alphabet = 64"
  "CHR ''='' \<notin> set b64_alphabet" "CHR ''-'' \<notin> set b64_alphabet" "CHR ''_'' \<notin> set b64_alphabet"
  by (simp_all add: b64_alphabet_def)

lemma b64_value_char: "n < 64 \<Longrightarrow> b64_value (b64_char n) = Some n"
proof -
  assume n: "n < 64"
  then have mem: "b64_alphabet ! n \<in> set b64_alphabet"
    by (simp add: b64_alphabet_facts)
  with b64_alphabet_facts(4,5) have "b64_alphabet ! n \<noteq> CHR ''-''" "b64_alphabet ! n \<noteq> CHR ''_''"
    by auto
  then show ?thesis
    using n by (simp add: b64_value_def b64_char_def index_of_nth b64_alphabet_facts)
qed

lemma b64_char_not_pad: "n < 64 \<Longrightarrow> b64_char n \<noteq> CHR ''=''"
proof -
  assume "n < 64"
  then have "b64_alphabet ! n \<in> set b64_alphabet"
    by (simp add: b64_alphabet_facts)
  with b64_alphabet_facts(3) show ?thesis
    unfolding b64_char_def by metis
qed

lemma b64_sextets_char:
  "n < 64 \<Longrightarrow> b64_sextets (b64_char n # cs) = n # b64_sextets cs"
  by (simp add: b64_value_char b64_char_not_pad)

lemma unat_byte_less: "unat (a :: byte) < 256"
  using unsigned_less [of a, where ?'a = nat] by simp

lemma nibble_parts:
  fixes m x :: nat
  shows "x < 16 \<Longrightarrow> (m * 16 + x) div 16 = m" "x < 16 \<Longrightarrow> (m * 16 + x) mod 16 = x"
    and "x < 4 \<Longrightarrow> (m * 4 + x) div 4 = m" "x < 4 \<Longrightarrow> (m * 4 + x) mod 4 = x"
  by simp_all

lemma byte_parts:
  "unat (a :: byte) div 16 < 16" "unat (a :: byte) div 64 < 4" "unat (a :: byte) div 4 < 64"
  using unat_byte_less [of a] by simp_all

lemma sextet_bounds:
  "unat (a :: byte) div 4 < 64"
  "unat (a :: byte) mod 4 * 16 + unat (b :: byte) div 16 < 64"
  "unat (b :: byte) mod 16 * 4 + unat (c :: byte) div 64 < 64"
  "unat (c :: byte) mod 64 < 64"
  "unat (a :: byte) mod 4 * 16 < 64"
  "unat (b :: byte) mod 16 * 4 < 64"
proof -
  have a: "unat a mod 4 < 4" and b: "unat b mod 16 < 16" by simp_all
  show "unat a div 4 < 64" by (rule byte_parts)
  show "unat a mod 4 * 16 + unat b div 16 < 64"
    using a byte_parts(1) [of b] by linarith
  show "unat b mod 16 * 4 + unat c div 64 < 64"
    using b byte_parts(2) [of c] by linarith
  show "unat c mod 64 < 64" by simp
  show "unat a mod 4 * 16 < 64" using a by linarith
  show "unat b mod 16 * 4 < 64" using b by linarith
qed

lemma bytes_from_sextets:
  "(of_nat (unat a div 4 * 4 + (unat a mod 4 * 16 + unat b div 16) div 16) :: byte) = a"
  "(of_nat ((unat a mod 4 * 16 + unat b div 16) mod 16 * 16
            + (unat b mod 16 * 4 + unat c div 64) div 4) :: byte) = b"
  "(of_nat ((unat b mod 16 * 4 + unat c div 64) mod 4 * 64 + unat c mod 64) :: byte) = c"
  "(of_nat (unat a div 4 * 4 + (unat a mod 4 * 16) div 16) :: byte) = a"
  "(of_nat ((unat a mod 4 * 16 + unat b div 16) mod 16 * 16 + (unat b mod 16 * 4) div 4) :: byte) = b"
  by (simp_all add: nibble_parts byte_parts)

lemma b64_sextets_pad: "b64_sextets (CHR ''='' # cs) = []"
  by simp

lemma base64_roundtrip: "base64_decode (base64_encode bs) = bs"
  unfolding base64_decode_def
proof (induction bs rule: base64_encode.induct)
  case 1
  then show ?case by simp
next
  case (2 a)
  show ?case
    by (simp only: base64_encode.simps b64_sextets_char sextet_bounds b64_sextets_pad
          sextets_bytes.simps bytes_from_sextets)
next
  case (3 a b)
  show ?case
    by (simp only: base64_encode.simps b64_sextets_char sextet_bounds b64_sextets_pad
          sextets_bytes.simps bytes_from_sextets)
next
  case (4 a b c rest)
  then show ?case
    by (simp only: base64_encode.simps append_Cons append_Nil b64_sextets_char sextet_bounds
          sextets_bytes.simps bytes_from_sextets)
qed

subsection \<open>The text of a key\<close>

lemma hexval_hexdigit: "k < 16 \<Longrightarrow> hexval (hexdigit k) = Some k"
proof -
  assume "k < 16"
  then have "index_of (''0123456789abcdef'' ! k) ''0123456789abcdef'' = Some k"
    by (intro index_of_nth) simp_all
  then show ?thesis
    by (simp only: hexval_def hexdigit_def option.case)
qed

lemma hexval_zero: "hexval CHR ''0'' = Some 0"
  by (simp add: hexval_def)

lemma unescape_control:
  assumes "k < 2" "l < 16"
  shows "unescape (CHR 0x5C # CHR ''u'' # CHR ''0'' # CHR ''0'' # hexdigit k # hexdigit l # rest)
           = Some (char_of (k * 16 + l), rest)"
  using assms by (simp add: hexval_zero hexval_hexdigit)

lemma unescape_escape: "unescape (escape_char c @ rest) = Some (c, rest)"
proof -
  let ?n = "of_char c :: nat"
  consider (special) "c \<in> {CHR 0x22, CHR 0x5C, CHR 0x08, CHR 0x09, CHR 0x0A, CHR 0x0C, CHR 0x0D}"
    | (control) "c \<notin> {CHR 0x22, CHR 0x5C, CHR 0x08, CHR 0x09, CHR 0x0A, CHR 0x0C, CHR 0x0D}" "?n < 32"
    | (plain) "c \<notin> {CHR 0x22, CHR 0x5C, CHR 0x08, CHR 0x09, CHR 0x0A, CHR 0x0C, CHR 0x0D}" "\<not> ?n < 32"
    by blast
  then show ?thesis
  proof cases
    case special
    then show ?thesis by (auto simp: escape_char_def)
  next
    case control
    then have enc: "escape_char c = [CHR 0x5C, CHR ''u'', CHR ''0'', CHR ''0'',
                       hexdigit (?n div 16), hexdigit (?n mod 16)]"
      by (simp add: escape_char_def)
    from control(2) have k: "?n div 16 < 2" by simp
    have "char_of (?n div 16 * 16 + ?n mod 16) = c" by simp
    with unescape_control [OF k, of "?n mod 16" rest] show ?thesis
      unfolding enc by simp
  next
    case plain
    then show ?thesis by (simp add: escape_char_def)
  qed
qed

lemma escape_char_first: "\<exists>x xs. escape_char c = x # xs \<and> x \<noteq> CHR 0x22"
  by (simp add: escape_char_def)

lemma read_name_char:
  "read_key (InName acc) ms (escape_char c @ rest) = read_key (InName (acc @ [c])) ms rest"
proof -
  obtain x xs where e: "escape_char c = x # xs" "x \<noteq> CHR 0x22"
    using escape_char_first by blast
  have "unescape (x # xs @ rest) = Some (c, rest)"
    using unescape_escape [of c rest] by (simp add: e)
  with e(2) show ?thesis
    by (simp add: e del: unescape.simps)
qed

lemma read_value_char:
  "read_key (InValue name acc) ms (escape_char c @ rest)
     = read_key (InValue name (acc @ [c])) ms rest"
proof -
  obtain x xs where e: "escape_char c = x # xs" "x \<noteq> CHR 0x22"
    using escape_char_first by blast
  have "unescape (x # xs @ rest) = Some (c, rest)"
    using unescape_escape [of c rest] by (simp add: e)
  with e(2) show ?thesis
    by (simp add: e del: unescape.simps)
qed

lemma read_name:
  "read_key (InName acc) ms (concat (map escape_char s) @ CHR 0x22 # rest)
     = read_key (Colon (acc @ s)) ms rest"
proof (induction s arbitrary: acc)
  case Nil
  show ?case by simp
next
  case (Cons c s)
  show ?case
    using Cons [of "acc @ [c]"] by (simp add: read_name_char del: read_key.simps(2))
qed

lemma read_value:
  "read_key (InValue name acc) ms (concat (map escape_char s) @ CHR 0x22 # rest)
     = read_key AfterMember (AList.update name (acc @ s) ms) rest"
proof (induction s arbitrary: acc)
  case Nil
  show ?case by simp
next
  case (Cons c s)
  show ?case
    using Cons [of "acc @ [c]"] by (simp add: read_value_char del: read_key.simps(2))
qed

lemma read_member:
  "read_key AfterComma ms (member_text kv @ rest)
     = read_key AfterMember (AList.update (fst kv) (snd kv) ms) rest"
  "read_key Opened ms (member_text kv @ rest)
     = read_key AfterMember (AList.update (fst kv) (snd kv) ms) rest"
proof -
  have body: "read_key (InName []) ms
          (concat (map escape_char (fst kv)) @ CHR 0x22 # CHR '':'' # CHR 0x22 #
             concat (map escape_char (snd kv)) @ CHR 0x22 # rest)
        = read_key AfterMember (AList.update (fst kv) (snd kv) ms) rest"
    unfolding read_name
    using read_value [of "fst kv" "[]" ms "snd kv" rest]
    by (simp add: is_ws_def del: unescape.simps)
  show "read_key AfterComma ms (member_text kv @ rest)
     = read_key AfterMember (AList.update (fst kv) (snd kv) ms) rest"
    using body by (simp add: member_text_def quote_def is_ws_def)
  show "read_key Opened ms (member_text kv @ rest)
     = read_key AfterMember (AList.update (fst kv) (snd kv) ms) rest"
    using body by (simp add: member_text_def quote_def is_ws_def)
qed

lemma read_members:
  "read_key AfterMember ms
     (concat (map (\<lambda>kv. CHR '','' # member_text kv) kvs) @ ''}'')
   = Some (put_all kvs ms)"
proof (induction kvs arbitrary: ms)
  case Nil
  show ?case by (simp add: is_ws_def put_all_def)
next
  case (Cons kv kvs)
  show ?case
    using Cons [of "AList.update (fst kv) (snd kv) ms"]
    by (simp add: is_ws_def put_all_def read_member del: read_key.simps(2))
       (simp add: is_ws_def read_member)
qed

lemma join_members:
  "join '','' (map f (kv # kvs)) = f kv @ concat (map (\<lambda>x. CHR '','' # f x) kvs)"
  by (induction kvs arbitrary: kv) simp_all

lemma key_text:
  "JSON_stringify (key_json k) = ''{'' @ join '','' (map member_text k) @ ''}''"
  by (simp add: key_json_def comp_def member_text_def [abs_def])

lemma update_fresh: "k \<notin> fst ` set al \<Longrightarrow> AList.update k v al = al @ [(k, v)]"
  by (induction al) auto

lemma put_all_distinct:
  "distinct (map fst (ms @ kvs)) \<Longrightarrow> put_all kvs ms = ms @ kvs"
proof (induction kvs arbitrary: ms)
  case Nil
  show ?case by (simp add: put_all_def)
next
  case (Cons kv kvs)
  from Cons.prems have "fst kv \<notin> fst ` set ms" by auto
  then have "AList.update (fst kv) (snd kv) ms = ms @ [kv]"
    by (simp add: update_fresh)
  with Cons.IH [of "ms @ [kv]"] Cons.prems show ?case
    by (simp add: put_all_def)
qed

lemma parse_key_text:
  "JSON_parse_key (JSON_stringify (key_json k)) = Some (put_all k [])"
proof (cases k)
  case Nil
  then show ?thesis
    by (simp add: JSON_parse_key_def key_json_def is_ws_def put_all_def)
next
  case (Cons kv kvs)
  have "JSON_parse_key (JSON_stringify (key_json k))
          = read_key Opened [] (member_text kv @
               concat (map (\<lambda>x. CHR '','' # member_text x) kvs) @ ''}'')"
    unfolding key_text Cons join_members
    by (simp add: JSON_parse_key_def is_ws_def)
  also have "\<dots> = Some (put_all kvs (AList.update (fst kv) (snd kv) []))"
    unfolding read_member read_members ..
  finally show ?thesis
    by (simp add: Cons put_all_def)
qed

lemma parse_stringify_key:
  "distinct (map fst k) \<Longrightarrow> JSON_parse_key (JSON_stringify (key_json k)) = Some k"
  using put_all_distinct [of "[]" k] by (simp add: parse_key_text)

lemma encode_nonempty: "encode_lastKey k \<noteq> []"
proof -
  have "utf8_char c \<noteq> []" for c
    by (simp add: utf8_char_def Let_def)
  then have "utf8_encode (c # s) \<noteq> []" for c s
    by (simp add: utf8_encode_def)
  moreover have "base64_encode bs \<noteq> []" if "bs \<noteq> []" for bs
    using that by (cases bs rule: base64_encode.cases) simp_all
  ultimately show ?thesis
    by (simp add: encode_lastKey_def key_text)
qed

text \<open>
  Claim C5. For every continuation key (an object of string attributes, each name
  once), the token built for the response is not empty, so the reading handler
  decodes it, and decoding it gives the key back exactly: base64, UTF-8 and the JSON
  text are each undone by their reader.
\<close>

theorem lastKey_token_roundtrip:
  "distinct (map fst k) \<Longrightarrow>
     decode_lastKey (encode_lastKey k) = Some k \<and> encode_lastKey k \<noteq> []"
  by (simp add: decode_lastKey_def encode_lastKey_def base64_roundtrip utf8_roundtrip
        parse_stringify_key encode_nonempty [unfolded encode_lastKey_def])

theorem lastKey_token_roundtrip_witness:
  "encode_lastKey [(''jobId'', ''a-1'')] = ''eyJqb2JJZCI6ImEtMSJ9''
   \<and> decode_lastKey ''eyJqb2JJZCI6ImEtMSJ9'' = Some [(''jobId'', ''a-1'')]"
proof -
  have enc: "encode_lastKey [(''jobId'', ''a-1'')] = ''eyJqb2JJZCI6ImEtMSJ9''"
    by code_simp
  show ?thesis
    using lastKey_token_roundtrip [of "[(''jobId'', ''a-1'')]"] by (simp add: enc)
qed

section \<open>The authorizer accepts one hardcoded token\<close>

lemma authorizer_effect:
  "policy_effects (authorizer hdrs arn) =
     [if header_or (map_of hdrs ''Authorization'') (map_of hdrs ''authorization'')
           = Some ''Bearer mysecrettoken'' then Allow else Deny]"
  by (simp add: authorizer_def generatePolicy_def policy_effects_def Let_def)

text \<open>
  Claim C10. The authorizer answers with an Allow policy exactly when the
  \<open>Authorization\<close> header is the string \<open>Bearer mysecrettoken\<close>, or that header is
  absent or empty and the lowercase \<open>authorization\<close> header is that string. In every
  other case, an absent header included, the policy is Deny and its context gives the
  reason \<open>Invalid token\<close>. The result depends on the two headers and the route only.
\<close>

theorem authorizer_allow_iff:
  "(policy_effects (authorizer hdrs arn) = [Allow]) =
      (map_of hdrs ''Authorization'' = Some ''Bearer mysecrettoken''
       \<or> (map_of hdrs ''Authorization'' \<in> {None, Some []}
          \<and> map_of hdrs ''authorization'' = Some ''Bearer mysecrettoken''))
   \<and> (policy_effects (authorizer hdrs arn) = [Allow]
      \<or> (policy_effects (authorizer hdrs arn) = [Deny]
         \<and> map_of (authContext (authorizer hdrs arn)) ''reason'' = Some ''Invalid token''))"
  by (auto simp: authorizer_def generatePolicy_def policy_effects_def header_or_def Let_def
           split: option.splits if_splits)

theorem authorizer_allow_iff_witness:
  "policy_effects (authorizer [(''authorization'', ''Bearer mysecrettoken'')] ''arn:route'') = [Allow]
   \<and> policy_effects (authorizer [] ''arn:route'') = [Deny]
   \<and> map_of (authContext (authorizer [] ''arn:route'')) ''reason'' = Some ''Invalid token''
   \<and> policy_effects (authorizer [(''Authorization'', ''Bearer mysecrettoken '')] ''arn:route'') = [Deny]"
  using authorizer_allow_iff [of "[(''authorization'', ''Bearer mysecrettoken'')]" "''arn:route''"]
        authorizer_allow_iff [of "[]" "''arn:route''"]
        authorizer_allow_iff [of "[(''Authorization'', ''Bearer mysecrettoken '')]" "''arn:route''"]
  by (simp add: authorizer_def generatePolicy_def policy_effects_def header_or_def)

end
